theory Spec2Isabelle
  imports Main
begin

section \<open>JavaScript values, replies and exceptions\<close>

text \<open>
  Request bodies arrive through \<^verbatim>\<open>express.json()\<close> and
  \<^verbatim>\<open>express.urlencoded({ extended: true })\<close> (app.js), so every field of
  \<^verbatim>\<open>req.body\<close> is a JSON-like value; a field that is missing reads as
  \<^verbatim>\<open>undefined\<close>, modelled by \<open>None\<close>. Numbers are integers here.
\<close>

datatype json =
    JNull
  | JBool bool
  | JNum int
  | JStr string
  | JArr "json list"
  | JObj "(string \<times> json) list"

text \<open>Reading a property of an object: the first binding of the key, else undefined.\<close>

fun field_of :: "(string \<times> json) list \<Rightarrow> string \<Rightarrow> json option" where
  "field_of [] k = None"
| "field_of ((k', v) # kvs) k = (if k' = k then Some v else field_of kvs k)"

text \<open>\<^verbatim>\<open>Boolean(v)\<close> and the test of \<^verbatim>\<open>if (v)\<close> / \<^verbatim>\<open>!v\<close>.\<close>

fun truthy :: "json option \<Rightarrow> bool" where
  "truthy None = False"
| "truthy (Some JNull) = False"
| "truthy (Some (JBool b)) = b"
| "truthy (Some (JNum n)) = (n \<noteq> 0)"
| "truthy (Some (JStr s)) = (s \<noteq> [])"
| "truthy (Some (JArr xs)) = True"
| "truthy (Some (JObj kvs)) = True"

text \<open>
  \<^verbatim>\<open>String.prototype.trim\<close>: white space of one-byte strings (tab, line feed,
  vertical tab, form feed, carriage return, space, no-break space).
\<close>

definition is_space :: "char \<Rightarrow> bool" where
  "is_space c = (of_char c \<in> {9, 10, 11, 12, 13, 32, 160 :: nat})"

definition trim :: "string \<Rightarrow> string" where
  "trim s = rev (dropWhile is_space (rev (dropWhile is_space s)))"

definition startsWith :: "string \<Rightarrow> string \<Rightarrow> bool" where
  "startsWith s p = (take (length p) s = p)"

text \<open>\<^verbatim>\<open>s.includes(p)\<close>: \<open>p\<close> occurs in \<open>s\<close> as a substring.\<close>

fun str_includes :: "string \<Rightarrow> string \<Rightarrow> bool" where
  "str_includes [] p = (p = [])"
| "str_includes (c # cs) p = (startsWith (c # cs) p \<or> str_includes cs p)"

text \<open>
  A reply is \<^verbatim>\<open>res.status(n).json(body)\<close>. An exception carries the three
  properties the handlers inspect: \<^verbatim>\<open>name\<close>, \<^verbatim>\<open>kind\<close> and
  \<^verbatim>\<open>message\<close>.
\<close>

record reply =
  status :: nat
  body :: json

record exn =
  name :: string
  kind :: "string option"
  message :: string

definition json_reply :: "nat \<Rightarrow> (string \<times> json) list \<Rightarrow> reply" where
  "json_reply n kvs = \<lparr>status = n, body = JObj kvs\<rparr>"

text \<open>
  The database as the handlers meet it. \<^verbatim>\<open>dbConnect()\<close> may throw, and
  Mongoose casts a string to an ObjectId and throws a CastError when it cannot. An
  operation sent to the server may throw as well (time limit, lost connection): a
  handler that sends one operation after another meets the fault at the first. These
  are parameters of the handlers; \<open>None\<close> is the absence of a fault.
\<close>

record db_env =
  connect_fault :: "exn option"
  cast_oid :: "string \<Rightarrow> string option"

record query_env = db_env +
  query_fault :: "exn option"

definition cast_error :: exn where
  "cast_error = \<lparr>name = ''CastError'', kind = Some ''ObjectId'',
     message = ''Cast to ObjectId failed''\<rparr>"

text \<open>Two replies that several routers build.\<close>

definition validation_failed :: "string \<Rightarrow> reply" where
  "validation_failed msg = json_reply 400
     [(''error'', JStr ''Validation failed''), (''message'', JStr msg)]"

definition not_found :: "string \<Rightarrow> reply" where
  "not_found msg = json_reply 404
     [(''error'', JStr ''Not found''), (''message'', JStr msg)]"

text \<open>A middleware either answers the request or calls \<^verbatim>\<open>next()\<close>.\<close>

datatype 'r outcome = Respond reply | Next 'r

text \<open>
  \<^verbatim>\<open>v?.trim()\<close>: undefined for \<^verbatim>\<open>undefined\<close> and \<^verbatim>\<open>null\<close>, the
  trimmed string for a string, and a TypeError for any other value, which has no
  \<^verbatim>\<open>trim\<close> method. \<open>blank v\<close> is \<^verbatim>\<open>!v?.trim()\<close>, and \<open>any_blank\<close> a
  chain of such tests joined by \<^verbatim>\<open>||\<close>, evaluated from the left.
\<close>

definition type_error :: exn where
  "type_error = \<lparr>name = ''TypeError'', kind = None, message = ''trim is not a function''\<rparr>"

definition opt_trim :: "json option \<Rightarrow> exn + string option" where
  "opt_trim v =
     (case v of
        None \<Rightarrow> Inr None
      | Some JNull \<Rightarrow> Inr None
      | Some (JStr s) \<Rightarrow> Inr (Some (trim s))
      | Some _ \<Rightarrow> Inl type_error)"

definition blank :: "json option \<Rightarrow> exn + bool" where
  "blank v =
     (case opt_trim v of
        Inl e \<Rightarrow> Inl e
      | Inr None \<Rightarrow> Inr True
      | Inr (Some s) \<Rightarrow> Inr (s = []))"

fun any_blank :: "json option list \<Rightarrow> exn + bool" where
  "any_blank [] = Inr False"
| "any_blank (v # vs) =
     (case blank v of
        Inl e \<Rightarrow> Inl e
      | Inr True \<Rightarrow> Inr True
      | Inr False \<Rightarrow> any_blank vs)"

text \<open>\<^verbatim>\<open>v.trim()\<close> for a value already known to be a string.\<close>

definition trimmed :: "json option \<Rightarrow> string" where
  "trimmed v = (case v of Some (JStr s) \<Rightarrow> trim s | _ \<Rightarrow> [])"

section \<open>Users (models/userModel.js)\<close>

text \<open>
  A user document. \<open>password\<close> is \<open>None\<close> when the field is not part of the
  document at hand (deselected by a projection, or deleted from a plain object);
  \<open>vkey\<close> is Mongoose's \<^verbatim>\<open>__v\<close>, \<open>None\<close> when deselected.
\<close>

record user =
  uid :: string
  userName :: string
  password :: "string option"
  firstName :: string
  lastName :: string
  isAdmin :: bool
  homeLocation :: string
  tokens :: "string list"
  resetPasswordToken :: "string option"
  resetPasswordExpire :: "int option"
  lastLogin :: "int option"
  createdAt :: int
  updatedAt :: int
  vkey :: "nat option"

text \<open>What the middlewares read and set on \<^verbatim>\<open>req\<close>.\<close>

record request =
  authorization :: "string option"
  req_user :: "user option"
  req_token :: "string option"
  req_userId :: "string option"

section \<open>Registration (routes/userRoutes.js, models/userModel.js)\<close>

text \<open>
  The environment of the user handlers: besides the database, the salt that
  \<^verbatim>\<open>bcrypt.genSalt(12)\<close> draws (the text \<^verbatim>\<open>$2a$12$\<close> and 22 characters), the
  31 characters that bcrypt computes from a password and a salt, the ObjectId of the new
  document and the time in milliseconds.
\<close>

record user_env = query_env +
  genSalt :: string
  bcrypt_digest :: "string \<Rightarrow> string \<Rightarrow> string"
  user_oid :: string
  clock :: int

text \<open>\<^verbatim>\<open>bcrypt.hash(s, salt)\<close>: the salt, followed by what bcrypt computes.\<close>

definition bcrypt_hash :: "'a user_env_scheme \<Rightarrow> string \<Rightarrow> string" where
  "bcrypt_hash env s = genSalt env @ bcrypt_digest env s (genSalt env)"

definition user_handleError :: "exn \<Rightarrow> string \<Rightarrow> reply" where
  "user_handleError err customMessage =
     (if name err = ''CastError'' \<or> kind err = Some ''ObjectId'' then
        json_reply 400
          [(''error'', JStr ''Invalid ID format''),
           (''message'', JStr ''Please provide a valid user ID'')]
      else if name err = ''ValidationError'' then
        json_reply 400
          [(''error'', JStr ''Validation failed''),
           (''message'', JStr (message err))]
      else if name err = ''MongoError'' \<or> str_includes (name err) ''Mongo'' then
        json_reply 503
          [(''error'', JStr ''Database service unavailable''),
           (''message'', JStr ''Please try again later'')]
      else json_reply 500 [(''error'', JStr customMessage)])"

subsection \<open>Serialization\<close>

text \<open>
  \<^verbatim>\<open>doc.toObject()\<close>: the fields that the document has, as a plain object
  (dates are written as their time values). \<^verbatim>\<open>delete obj.k\<close> removes a key.
  \<^verbatim>\<open>toJSON\<close> is the method of the schema, which \<^verbatim>\<open>res.json(doc)\<close> calls
  for a document.
\<close>

definition opt_field :: "string \<Rightarrow> json option \<Rightarrow> (string \<times> json) list" where
  "opt_field k v = (case v of None \<Rightarrow> [] | Some j \<Rightarrow> [(k, j)])"

definition toObject :: "user \<Rightarrow> (string \<times> json) list" where
  "toObject u =
     [(''_id'', JStr (uid u)), (''userName'', JStr (userName u))]
     @ opt_field ''password'' (map_option JStr (password u))
     @ [(''firstName'', JStr (firstName u)), (''lastName'', JStr (lastName u)),
        (''isAdmin'', JBool (isAdmin u)), (''homeLocation'', JStr (homeLocation u)),
        (''tokens'', JArr (map (\<lambda>t. JObj [(''token'', JStr t)]) (tokens u)))]
     @ opt_field ''resetPasswordToken'' (map_option JStr (resetPasswordToken u))
     @ opt_field ''resetPasswordExpire'' (map_option JNum (resetPasswordExpire u))
     @ opt_field ''lastLogin'' (map_option JNum (lastLogin u))
     @ [(''createdAt'', JNum (createdAt u)), (''updatedAt'', JNum (updatedAt u))]
     @ opt_field ''__v'' (map_option (\<lambda>n. JNum (int n)) (vkey u))"

definition js_delete :: "string \<Rightarrow> (string \<times> json) list \<Rightarrow> (string \<times> json) list" where
  "js_delete k kvs = filter (\<lambda>kv. fst kv \<noteq> k) kvs"

definition toJSON :: "user \<Rightarrow> (string \<times> json) list" where
  "toJSON u =
     js_delete ''resetPasswordExpire''
       (js_delete ''resetPasswordToken''
         (js_delete ''tokens''
           (js_delete ''password'' (toObject u))))"

text \<open>The user of a login reply: \<^verbatim>\<open>toObject()\<close> without password and tokens.\<close>

definition login_user :: "user \<Rightarrow> (string \<times> json) list" where
  "login_user u = js_delete ''tokens'' (js_delete ''password'' (toObject u))"

subsection \<open>Checks of the handler and of the schema\<close>

text \<open>The test \<^verbatim>\<open>/^[a-zA-Z0-9\-]+$/\<close>.\<close>

definition is_name_char :: "char \<Rightarrow> bool" where
  "is_name_char c =
     (let n = (of_char c :: nat)
      in (97 \<le> n \<and> n \<le> 122) \<or> (65 \<le> n \<and> n \<le> 90) \<or> (48 \<le> n \<and> n \<le> 57) \<or> n = 45)"

definition is_user_name :: "string \<Rightarrow> bool" where
  "is_user_name s = (s \<noteq> [] \<and> list_all is_name_char s)"

text \<open>
  \<^verbatim>\<open>lowercase: true\<close> of the schema, on the letters that the test above admits.
  Mongoose applies the setters of a path (\<^verbatim>\<open>trim\<close>, \<^verbatim>\<open>lowercase\<close>) to the
  value of a new document and to the value in a query filter.
\<close>

definition to_lower :: "char \<Rightarrow> char" where
  "to_lower c =
     (if 65 \<le> (of_char c :: nat) \<and> (of_char c :: nat) \<le> 90
      then char_of ((of_char c :: nat) + 32) else c)"

definition userName_setters :: "string \<Rightarrow> string" where
  "userName_setters s = map to_lower (trim s)"

text \<open>\<^verbatim>\<open>v?.trim() || d\<close>.\<close>

definition trim_or :: "json option \<Rightarrow> string \<Rightarrow> exn + string" where
  "trim_or v d =
     (case opt_trim v of
        Inl e \<Rightarrow> Inl e
      | Inr None \<Rightarrow> Inr d
      | Inr (Some s) \<Rightarrow> Inr (if s = [] then d else s))"

text \<open>
  The validators of the schema that can still fail for the document the handler builds.
  Mongoose writes the message; the model keeps its first words.
\<close>

definition user_invalid :: exn where
  "user_invalid = \<lparr>name = ''ValidationError'', kind = None,
     message = ''User validation failed''\<rparr>"

definition schema_valid :: "user \<Rightarrow> bool" where
  "schema_valid u =
     (3 \<le> length (userName u) \<and> length (userName u) \<le> 30
      \<and> (case password u of None \<Rightarrow> False | Some p \<Rightarrow> 8 \<le> length p \<and> length p \<le> 128)
      \<and> firstName u \<noteq> [] \<and> length (firstName u) \<le> 50
      \<and> lastName u \<noteq> [] \<and> length (lastName u) \<le> 50)"

definition duplicate_key :: exn where
  "duplicate_key = \<lparr>name = ''MongoServerError'', kind = None,
     message = ''E11000 duplicate key error''\<rparr>"

text \<open>
  \<^verbatim>\<open>newUser.save()\<close> for a new document: validation, then the
  \<^verbatim>\<open>pre('save')\<close> hook, which replaces the password by its hash (the password of
  a new document counts as modified), then the insertion, which the unique index on
  \<^verbatim>\<open>userName\<close> refuses for a name that is taken.
\<close>

definition save_user :: "'a user_env_scheme \<Rightarrow> user list \<Rightarrow> user \<Rightarrow> exn + user \<times> user list" where
  "save_user env users u =
     (if \<not> schema_valid u then Inl user_invalid
      else
        (case query_fault env of
           Some e \<Rightarrow> Inl e
         | None \<Rightarrow>
             let saved = u\<lparr>password := map_option (bcrypt_hash env) (password u)\<rparr>
             in if list_ex (\<lambda>w. userName w = userName saved) users then Inl duplicate_key
                else Inr (saved, users @ [saved])))"

text \<open>The document of \<^verbatim>\<open>new User({...})\<close>.\<close>

definition new_user ::
  "'a user_env_scheme \<Rightarrow> string \<Rightarrow> string \<Rightarrow> string \<Rightarrow> string \<Rightarrow> string \<Rightarrow> bool \<Rightarrow> user" where
  "new_user env n p f l h a =
     \<lparr>uid = user_oid env, userName = userName_setters n, password = Some p,
      firstName = trim f, lastName = trim l, isAdmin = a, homeLocation = trim h,
      tokens = [], resetPasswordToken = None, resetPasswordExpire = None,
      lastLogin = None, createdAt = clock env, updatedAt = clock env, vkey = Some 0\<rparr>"

subsection \<open>The handler\<close>

text \<open>
  \<^verbatim>\<open>router.post('/register')\<close>, which no middleware guards: the reply and the
  user collection afterwards.
\<close>

definition register_user ::
  "'a user_env_scheme \<Rightarrow> user list \<Rightarrow> (string \<times> json) list \<Rightarrow> reply \<times> user list" where
  "register_user env users b =
     (case connect_fault env of
        Some err \<Rightarrow> (user_handleError err ''Failed to register user'', users)
      | None \<Rightarrow>
          (case any_blank [field_of b ''userName'', field_of b ''password''] of
             Inl err \<Rightarrow> (user_handleError err ''Failed to register user'', users)
           | Inr True \<Rightarrow> (validation_failed ''Username and password are required'', users)
           | Inr False \<Rightarrow>
               if \<not> is_user_name (trimmed (field_of b ''userName'')) then
                 (validation_failed
                    ''Username can only contain letters, numbers, and hyphens'', users)
               else if (case field_of b ''password'' of
                          Some (JStr p) \<Rightarrow> length p < 8 | _ \<Rightarrow> False) then
                 (validation_failed ''Password must be at least 8 characters long'', users)
               else
                 (case query_fault env of
                    Some err \<Rightarrow> (user_handleError err ''Failed to register user'', users)
                  | None \<Rightarrow>
                      (case find (\<lambda>u. userName u
                                       = userName_setters (trimmed (field_of b ''userName'')))
                              users of
                         Some existingUser \<Rightarrow>
                           (validation_failed ''Username already exists'', users)
                       | None \<Rightarrow>
                           (case trim_or (field_of b ''firstName'') [] of
                              Inl err \<Rightarrow>
                                (user_handleError err ''Failed to register user'', users)
                            | Inr f \<Rightarrow>
                                (case trim_or (field_of b ''lastName'') [] of
                                   Inl err \<Rightarrow>
                                     (user_handleError err ''Failed to register user'', users)
                                 | Inr l \<Rightarrow>
                                     (case trim_or (field_of b ''homeLocation'') ''NSC'' of
                                        Inl err \<Rightarrow>
                                          (user_handleError err ''Failed to register user'',
                                           users)
                                      | Inr h \<Rightarrow>
                                          (case save_user env users
                                                  (new_user env
                                                     (trimmed (field_of b ''userName''))
                                                     (trimmed (field_of b ''password''))
                                                     f l h
                                                     (truthy (field_of b ''isAdmin''))) of
                                             Inl err \<Rightarrow>
                                               (user_handleError err
                                                  ''Failed to register user'', users)
                                           | Inr (savedUser, users') \<Rightarrow>
                                               (\<lparr>status = 201,
                                                 body = JObj (js_delete ''password''
                                                               (toObject savedUser))\<rparr>,
                                                users')))))))))"

section \<open>Authentication middleware (middleware/auth.js)\<close>

text \<open>
  \<^verbatim>\<open>s.replace(p, r)\<close> with a string pattern: the first occurrence of \<open>p\<close> is
  replaced.
\<close>

fun str_replace :: "string \<Rightarrow> string \<Rightarrow> string \<Rightarrow> string" where
  "str_replace [] p r = (if p = [] then r else [])"
| "str_replace (c # cs) p r =
     (if startsWith (c # cs) p then r @ drop (length p) (c # cs)
      else c # str_replace cs p r)"

text \<open>
  What the middleware calls and does not define: besides the database (see
  \<open>query_env\<close>), \<^verbatim>\<open>jwt.verify(token, secret)\<close>, which throws or returns the
  payload. Of the payload only \<^verbatim>\<open>_id\<close> is read (\<open>None\<close> when the payload
  has none).
\<close>

record auth_env = query_env +
  jwt_verify :: "string \<Rightarrow> exn + string option"

text \<open>
  \<^verbatim>\<open>User.findById(id).select('-password -__v')\<close>. Mongoose turns
  \<^verbatim>\<open>findById(undefined)\<close> into a query for \<^verbatim>\<open>_id: null\<close>, which finds
  nothing.
\<close>

definition select_identity :: "user \<Rightarrow> user" where
  "select_identity u = u\<lparr>password := None, vkey := None\<rparr>"

definition findById_identity ::
  "'a query_env_scheme \<Rightarrow> user list \<Rightarrow> string option \<Rightarrow> exn + user option" where
  "findById_identity env users i =
     (case i of
        None \<Rightarrow> (case query_fault env of Some e \<Rightarrow> Inl e | None \<Rightarrow> Inr None)
      | Some s \<Rightarrow>
          (case cast_oid env s of
             None \<Rightarrow> Inl cast_error
           | Some oid \<Rightarrow>
               (case query_fault env of
                  Some e \<Rightarrow> Inl e
                | None \<Rightarrow> Inr (map_option select_identity (find (\<lambda>u. uid u = oid) users)))))"

definition auth_required :: reply where
  "auth_required = json_reply 401
     [(''error'', JStr ''Authentication required''),
      (''message'', JStr ''No authorization header provided'')]"

definition invalid_token_format :: reply where
  "invalid_token_format = json_reply 401
     [(''error'', JStr ''Invalid token format''),
      (''message'', JStr ''Authorization header must start with \"Bearer \"'')]"

definition token_missing :: reply where
  "token_missing = json_reply 401
     [(''error'', JStr ''Invalid token''),
      (''message'', JStr ''Token is missing after Bearer prefix'')]"

definition user_not_found :: reply where
  "user_not_found = json_reply 401
     [(''error'', JStr ''Invalid token''),
      (''message'', JStr ''User not found'')]"

definition jwt_invalid :: reply where
  "jwt_invalid = json_reply 401
     [(''error'', JStr ''Invalid token''),
      (''message'', JStr ''Malformed JWT token''),
      (''code'', JStr ''JWT_INVALID'')]"

definition jwt_expired :: reply where
  "jwt_expired = json_reply 401
     [(''error'', JStr ''Token expired''),
      (''message'', JStr ''Please log in again''),
      (''code'', JStr ''JWT_EXPIRED'')]"

definition db_error :: reply where
  "db_error = json_reply 503
     [(''error'', JStr ''Service unavailable''),
      (''message'', JStr ''Database connection issue''),
      (''code'', JStr ''DB_ERROR'')]"

definition auth_failed :: reply where
  "auth_failed = json_reply 401
     [(''error'', JStr ''Authentication failed''),
      (''message'', JStr ''Please authenticate''),
      (''code'', JStr ''AUTH_FAILED'')]"

text \<open>The \<^verbatim>\<open>catch\<close> block of \<^verbatim>\<open>auth\<close>.\<close>

definition auth_catch :: "exn \<Rightarrow> reply" where
  "auth_catch err =
     (if name err = ''JsonWebTokenError'' then jwt_invalid
      else if name err = ''TokenExpiredError'' then jwt_expired
      else if name err = ''MongooseError'' \<or> str_includes (name err) ''Mongo'' then db_error
      else auth_failed)"

definition auth :: "auth_env \<Rightarrow> user list \<Rightarrow> request \<Rightarrow> request outcome" where
  "auth env users req =
     (case connect_fault env of
        Some err \<Rightarrow> Respond (auth_catch err)
      | None \<Rightarrow>
          (case authorization req of
             None \<Rightarrow> Respond auth_required
           | Some authHeader \<Rightarrow>
               if authHeader = [] then Respond auth_required
               else if \<not> startsWith authHeader ''Bearer '' then Respond invalid_token_format
               else
                 let token = trim (str_replace authHeader ''Bearer '' []) in
                 if token = [] then Respond token_missing
                 else
                   (case jwt_verify env token of
                      Inl err \<Rightarrow> Respond (auth_catch err)
                    | Inr decoded_id \<Rightarrow>
                        (case findById_identity env users decoded_id of
                           Inl err \<Rightarrow> Respond (auth_catch err)
                         | Inr None \<Rightarrow> Respond user_not_found
                         | Inr (Some u) \<Rightarrow>
                             Next (req\<lparr>req_token := Some token, req_user := Some u,
                                        req_userId := Some (uid u)\<rparr>)))))"

section \<open>Authorization middleware (middleware/admin.js)\<close>

text \<open>
  The middleware reads \<^verbatim>\<open>req.user\<close> and its \<^verbatim>\<open>isAdmin\<close>. Nothing in
  its \<^verbatim>\<open>try\<close> block throws for such a request, so the 500 reply of the
  \<^verbatim>\<open>catch\<close> block is never built.
\<close>

definition admin :: "request \<Rightarrow> request outcome" where
  "admin req =
     (case req_user req of
        None \<Rightarrow>
          Respond (json_reply 401
            [(''error'', JStr ''Authentication required''),
             (''message'', JStr ''Please log in to access this resource'')])
      | Some u \<Rightarrow>
          if \<not> isAdmin u then
            Respond (json_reply 403
              [(''error'', JStr ''Admin access required''),
               (''message'', JStr ''This action requires administrator privileges'')])
          else Next req)"

text \<open>The status of an answer, \<open>None\<close> when the middleware passed the request on.\<close>

fun status_of :: "'r outcome \<Rightarrow> nat option" where
  "status_of (Respond r) = Some (status r)"
| "status_of (Next _) = None"

section \<open>Trips (models/tripModel.js, routes/tripRoutes.js)\<close>

text \<open>
  A field of a stored document is missing, \<^verbatim>\<open>null\<close>, or holds a value.
  \<^verbatim>\<open>numberOfPassengers\<close> is the only field of a trip that the schema does not
  require; its default is \<^verbatim>\<open>null\<close>.
\<close>

datatype 'a field = Absent | Null | Val 'a

record trip =
  tid :: string
  passengerId :: string
  fromOrigin :: string
  toDestination :: string
  tripDate :: string
  confirmed :: bool
  numberOfPassengers :: "int field"

text \<open>
  \<^verbatim>\<open>res.json(trip)\<close>: a missing count is read back as the schema default.
  The version key \<^verbatim>\<open>__v\<close> that Mongoose adds to the documents it creates is
  no field of the schema and is left out of the record and of the reply.
\<close>

definition count_json :: "int field \<Rightarrow> json" where
  "count_json c = (case c of Absent \<Rightarrow> JNull | Null \<Rightarrow> JNull | Val n \<Rightarrow> JNum n)"

definition trip_json :: "trip \<Rightarrow> json" where
  "trip_json t = JObj
     [(''_id'', JStr (tid t)),
      (''passengerId'', JStr (passengerId t)),
      (''fromOrigin'', JStr (fromOrigin t)),
      (''toDestination'', JStr (toDestination t)),
      (''tripDate'', JStr (tripDate t)),
      (''confirmed'', JBool (confirmed t)),
      (''numberOfPassengers'', count_json (numberOfPassengers t))]"

text \<open>
  The environment of the trip handlers: besides the database,
  \<^verbatim>\<open>new Date(v)\<close> for a string, an array or an object \<open>v\<close> (ToPrimitive, then
  \<^verbatim>\<open>Date.parse\<close>, which is implementation-defined outside the ISO format; \<open>None\<close>
  is an invalid date), \<^verbatim>\<open>parseInt\<close> (\<open>None\<close> is NaN), the ObjectId of a new
  document, and whether the server refuses an update document that names one path
  under two operators (MongoDB answers ConflictingUpdateOperators, code 40).
\<close>

record trip_env = query_env +
  date_parse :: "json \<Rightarrow> int option"
  parseInt :: "json \<Rightarrow> int option"
  new_oid :: string
  rejects_conflicts :: bool

subsection \<open>handleError\<close>

definition trip_handleError :: "exn \<Rightarrow> string \<Rightarrow> reply" where
  "trip_handleError err customMessage =
     (if name err = ''CastError'' \<or> kind err = Some ''ObjectId'' then
        json_reply 400
          [(''error'', JStr ''Invalid ID format''),
           (''message'', JStr ''Please provide a valid trip ID'')]
      else if name err = ''ValidationError'' then
        json_reply 400
          [(''error'', JStr ''Validation failed''),
           (''message'', JStr (message err))]
      else if name err = ''MongoError'' \<or> str_includes (name err) ''Mongo'' then
        json_reply 503
          [(''error'', JStr ''Database service unavailable''),
           (''message'', JStr ''Please try again later'')]
      else json_reply 500 [(''error'', JStr customMessage)])"

subsection \<open>formatTripDate\<close>

text \<open>
  The argument of \<^verbatim>\<open>formatTripDate\<close>: undefined, a value of the request, or a
  Date object with its time value in milliseconds (\<open>None\<close> for an invalid date).
\<close>

datatype js_value = Undefined | Json json | DateObj "int option"

definition js_arg :: "json option \<Rightarrow> js_value" where
  "js_arg v = (case v of None \<Rightarrow> Undefined | Some j \<Rightarrow> Json j)"

text \<open>The test \<^verbatim>\<open>/^\d{4}-\d{2}-\d{2}$/\<close>.\<close>

definition is_digit :: "char \<Rightarrow> bool" where
  "is_digit c = (c \<in> set ''0123456789'')"

definition is_ymd :: "string \<Rightarrow> bool" where
  "is_ymd s =
     (length s = 10 \<and> list_all is_digit (take 4 s) \<and> s ! 4 = CHR ''-''
      \<and> list_all is_digit (take 2 (drop 5 s)) \<and> s ! 7 = CHR ''-''
      \<and> list_all is_digit (drop 8 s))"

text \<open>
  \<^verbatim>\<open>new Date(v)\<close>: the time value. A number is clipped to the range of time
  values; \<^verbatim>\<open>null\<close> and booleans convert to numbers.
\<close>

definition time_clip :: "int \<Rightarrow> int option" where
  "time_clip t = (if \<bar>t\<bar> > 8640000000000000 then None else Some t)"

definition new_Date :: "(json \<Rightarrow> int option) \<Rightarrow> js_value \<Rightarrow> int option" where
  "new_Date parse v =
     (case v of
        Undefined \<Rightarrow> None
      | DateObj t \<Rightarrow> t
      | Json JNull \<Rightarrow> Some 0
      | Json (JBool b) \<Rightarrow> Some (if b then 1 else 0)
      | Json (JNum n) \<Rightarrow> time_clip n
      | Json j \<Rightarrow> parse j)"

text \<open>
  \<^verbatim>\<open>toISOString().split('T')[0]\<close>: the calendar date in UTC of a time value.
  Years outside 0..9999 are written with a sign and six digits.
\<close>

definition year_of_era :: "int \<Rightarrow> int" where
  "year_of_era doe = (doe - doe div 1460 + doe div 36524 - doe div 146096) div 365"

definition day_of_year :: "int \<Rightarrow> int" where
  "day_of_year doe =
     doe - (365 * year_of_era doe + year_of_era doe div 4 - year_of_era doe div 100)"

definition month_point :: "int \<Rightarrow> int" where
  "month_point doy = (5 * doy + 2) div 153"

definition day_of_month :: "int \<Rightarrow> int" where
  "day_of_month doy = doy - (153 * month_point doy + 2) div 5 + 1"

definition month_of :: "int \<Rightarrow> int" where
  "month_of doy = (if month_point doy < 10 then month_point doy + 3 else month_point doy - 9)"

text \<open>
  Year, month and day of a day number (days since 1 January 1970), counted in eras of
  400 years that begin on 1 March.
\<close>

definition civil_from_days :: "int \<Rightarrow> int \<times> int \<times> int" where
  "civil_from_days days =
     (let era = (days + 719468) div 146097;
          doe = (days + 719468) mod 146097;
          doy = day_of_year doe;
          m = month_of doy
      in (year_of_era doe + era * 400 + (if m \<le> 2 then 1 else 0), m, day_of_month doy))"

definition digit :: "int \<Rightarrow> char" where
  "digit n = ''0123456789'' ! nat (n mod 10)"

definition pad2 :: "int \<Rightarrow> string" where
  "pad2 n = [digit (n div 10), digit n]"

definition pad4 :: "int \<Rightarrow> string" where
  "pad4 n = [digit (n div 1000), digit (n div 100), digit (n div 10), digit n]"

definition pad6 :: "int \<Rightarrow> string" where
  "pad6 n = [digit (n div 100000), digit (n div 10000)] @ pad4 n"

definition iso_year :: "int \<Rightarrow> string" where
  "iso_year y =
     (if 0 \<le> y \<and> y \<le> 9999 then pad4 y
      else (if y < 0 then ''-'' else ''+'') @ pad6 \<bar>y\<bar>)"

definition iso_date :: "int \<Rightarrow> string" where
  "iso_date t =
     (case civil_from_days (t div 86400000) of
        (y, m, d) \<Rightarrow> iso_year y @ ''-'' @ pad2 m @ ''-'' @ pad2 d)"

definition invalid_date :: exn where
  "invalid_date = \<lparr>name = ''Error'', kind = None, message = ''Invalid date format''\<rparr>"

definition date_via_Date :: "(json \<Rightarrow> int option) \<Rightarrow> js_value \<Rightarrow> exn + string" where
  "date_via_Date parse dateInput =
     (case new_Date parse dateInput of
        None \<Rightarrow> Inl invalid_date
      | Some t \<Rightarrow> Inr (iso_date t))"

definition formatTripDate :: "(json \<Rightarrow> int option) \<Rightarrow> js_value \<Rightarrow> exn + string" where
  "formatTripDate parse dateInput =
     (case dateInput of
        Json (JStr s) \<Rightarrow> if is_ymd s then Inr s else date_via_Date parse dateInput
      | _ \<Rightarrow> date_via_Date parse dateInput)"

subsection \<open>Creating and replacing a trip\<close>

text \<open>The test that guards \<^verbatim>\<open>POST /\<close> and \<^verbatim>\<open>PUT /:id\<close>.\<close>

definition trip_fields_missing :: "(string \<times> json) list \<Rightarrow> exn + bool" where
  "trip_fields_missing b =
     (case any_blank [field_of b ''passengerId'', field_of b ''fromOrigin'',
                      field_of b ''toDestination''] of
        Inl e \<Rightarrow> Inl e
      | Inr True \<Rightarrow> Inr True
      | Inr False \<Rightarrow>
          Inr (\<not> truthy (field_of b ''tripDate'') \<or> field_of b ''confirmed'' = None))"

definition fields_required :: reply where
  "fields_required = validation_failed
     ''All fields (passengerId, fromOrigin, toDestination, tripDate, confirmed) are required''"

definition bad_trip_date :: reply where
  "bad_trip_date = validation_failed
     ''Invalid trip date format. Use YYYY-MM-DD format or a valid date string''"

text \<open>
  The count as the handlers build it: \<^verbatim>\<open>null\<close> when the body has no count or a
  \<^verbatim>\<open>null\<close> one, else \<^verbatim>\<open>parseInt\<close> of it, which may be NaN.
\<close>

datatype count_arg = CountNull | CountNaN | Count int

definition count_of :: "(json \<Rightarrow> int option) \<Rightarrow> json option \<Rightarrow> count_arg" where
  "count_of parse_int v =
     (case v of
        None \<Rightarrow> CountNull
      | Some JNull \<Rightarrow> CountNull
      | Some j \<Rightarrow> (case parse_int j of None \<Rightarrow> CountNaN | Some n \<Rightarrow> Count n))"

record trip_data =
  d_passengerId :: string
  d_fromOrigin :: string
  d_toDestination :: string
  d_tripDate :: string
  d_confirmed :: bool
  d_numberOfPassengers :: count_arg

definition build_trip_data ::
  "(json \<Rightarrow> int option) \<Rightarrow> (string \<times> json) list \<Rightarrow> string \<Rightarrow> trip_data" where
  "build_trip_data parse_int b formattedDate =
     \<lparr>d_passengerId = trimmed (field_of b ''passengerId''),
      d_fromOrigin = trimmed (field_of b ''fromOrigin''),
      d_toDestination = trimmed (field_of b ''toDestination''),
      d_tripDate = formattedDate,
      d_confirmed = truthy (field_of b ''confirmed''),
      d_numberOfPassengers = count_of parse_int (field_of b ''numberOfPassengers'')\<rparr>"

text \<open>
  What Mongoose does with the count. On \<^verbatim>\<open>save()\<close> a NaN fails the cast and
  a number below 1 fails the validators; both surface as a ValidationError. In an update
  the failed cast is thrown as a CastError and the validators run because of
  \<^verbatim>\<open>runValidators: true\<close>. Mongoose writes the messages; the model keeps
  their first words.
\<close>

definition count_invalid :: exn where
  "count_invalid = \<lparr>name = ''ValidationError'', kind = None,
     message = ''Trip validation failed: numberOfPassengers''\<rparr>"

definition count_cast_error :: exn where
  "count_cast_error = \<lparr>name = ''CastError'', kind = Some ''Number'',
     message = ''Cast to Number failed''\<rparr>"

definition stored_count :: "exn \<Rightarrow> count_arg \<Rightarrow> exn + int field" where
  "stored_count nan_error c =
     (case c of
        CountNull \<Rightarrow> Inr Null
      | CountNaN \<Rightarrow> Inl nan_error
      | Count n \<Rightarrow> if n < 1 then Inl count_invalid else Inr (Val n))"

definition save_trip :: "'a trip_env_scheme \<Rightarrow> trip list \<Rightarrow> trip_data \<Rightarrow> exn + trip \<times> trip list" where
  "save_trip env trips d =
     (case stored_count count_invalid (d_numberOfPassengers d) of
        Inl e \<Rightarrow> Inl e
      | Inr c \<Rightarrow>
          (case query_fault env of
             Some e \<Rightarrow> Inl e
           | None \<Rightarrow>
               let t = \<lparr>tid = new_oid env, passengerId = d_passengerId d,
                        fromOrigin = d_fromOrigin d, toDestination = d_toDestination d,
                        tripDate = d_tripDate d, confirmed = d_confirmed d,
                        numberOfPassengers = c\<rparr>
               in Inr (t, trips @ [t])))"

text \<open>\<^verbatim>\<open>router.post('/')\<close>: the reply and the trip collection afterwards.\<close>

definition create_trip :: "'a trip_env_scheme \<Rightarrow> trip list \<Rightarrow> (string \<times> json) list \<Rightarrow> reply \<times> trip list" where
  "create_trip env trips b =
     (case connect_fault env of
        Some err \<Rightarrow> (trip_handleError err ''Failed to create trip'', trips)
      | None \<Rightarrow>
          (case trip_fields_missing b of
             Inl err \<Rightarrow> (trip_handleError err ''Failed to create trip'', trips)
           | Inr True \<Rightarrow> (fields_required, trips)
           | Inr False \<Rightarrow>
               (case formatTripDate (date_parse env) (js_arg (field_of b ''tripDate'')) of
                  Inl dateError \<Rightarrow> (bad_trip_date, trips)
                | Inr formattedDate \<Rightarrow>
                    (case save_trip env trips (build_trip_data (parseInt env) b formattedDate) of
                       Inl err \<Rightarrow> (trip_handleError err ''Failed to create trip'', trips)
                     | Inr (savedTrip, trips') \<Rightarrow>
                         (\<lparr>status = 201, body = trip_json savedTrip\<rparr>, trips')))))"

text \<open>Replacing the first element that satisfies a test.\<close>

fun replace_first :: "('a \<Rightarrow> bool) \<Rightarrow> 'a \<Rightarrow> 'a list \<Rightarrow> 'a list" where
  "replace_first P y [] = []"
| "replace_first P y (x # xs) = (if P x then y # xs else x # replace_first P y xs)"

text \<open>
  \<^verbatim>\<open>Trip.findByIdAndUpdate(id, { $set: updateData }, { new: true, runValidators: true })\<close>:
  \<open>None\<close> when no trip has the id, else the trip as updated.
\<close>

definition set_trip :: "trip_data \<Rightarrow> int field \<Rightarrow> trip \<Rightarrow> trip" where
  "set_trip d c t =
     t\<lparr>passengerId := d_passengerId d, fromOrigin := d_fromOrigin d,
       toDestination := d_toDestination d, tripDate := d_tripDate d,
       confirmed := d_confirmed d, numberOfPassengers := c\<rparr>"

definition findByIdAndUpdate_set ::
  "'a trip_env_scheme \<Rightarrow> trip list \<Rightarrow> string \<Rightarrow> trip_data \<Rightarrow> exn + trip option \<times> trip list" where
  "findByIdAndUpdate_set env trips i d =
     (case cast_oid env i of
        None \<Rightarrow> Inl cast_error
      | Some oid \<Rightarrow>
          (case stored_count count_cast_error (d_numberOfPassengers d) of
             Inl e \<Rightarrow> Inl e
           | Inr c \<Rightarrow>
               (case query_fault env of
                  Some e \<Rightarrow> Inl e
                | None \<Rightarrow>
                    (case find (\<lambda>t. tid t = oid) trips of
                       None \<Rightarrow> Inr (None, trips)
                     | Some t \<Rightarrow>
                         Inr (Some (set_trip d c t),
                              replace_first (\<lambda>t. tid t = oid) (set_trip d c t) trips)))))"

text \<open>\<^verbatim>\<open>router.put('/:id')\<close>.\<close>

definition update_trip ::
  "'a trip_env_scheme \<Rightarrow> trip list \<Rightarrow> string \<Rightarrow> (string \<times> json) list \<Rightarrow> reply \<times> trip list" where
  "update_trip env trips i b =
     (case connect_fault env of
        Some err \<Rightarrow> (trip_handleError err ''Failed to update trip'', trips)
      | None \<Rightarrow>
          (case trip_fields_missing b of
             Inl err \<Rightarrow> (trip_handleError err ''Failed to update trip'', trips)
           | Inr True \<Rightarrow> (fields_required, trips)
           | Inr False \<Rightarrow>
               (case formatTripDate (date_parse env) (js_arg (field_of b ''tripDate'')) of
                  Inl dateError \<Rightarrow> (bad_trip_date, trips)
                | Inr formattedDate \<Rightarrow>
                    (case findByIdAndUpdate_set env trips i
                            (build_trip_data (parseInt env) b formattedDate) of
                       Inl err \<Rightarrow> (trip_handleError err ''Failed to update trip'', trips)
                     | Inr (None, trips') \<Rightarrow> (not_found ''Trip not found'', trips')
                     | Inr (Some updatedTrip, trips') \<Rightarrow>
                         (\<lparr>status = 200, body = trip_json updatedTrip\<rparr>, trips')))))"

text \<open>
  \<^verbatim>\<open>router.get('/date/:date')\<close>: the trips whose stored date is the formatted
  parameter (\<^verbatim>\<open>sort({ createdAt: 1 })\<close> on documents without that field keeps
  the collection's order).
\<close>

definition trips_by_date :: "'a trip_env_scheme \<Rightarrow> trip list \<Rightarrow> string \<Rightarrow> reply" where
  "trips_by_date env trips dateParam =
     (case connect_fault env of
        Some err \<Rightarrow> trip_handleError err ''Failed to fetch trips by date''
      | None \<Rightarrow>
          (case formatTripDate (date_parse env) (Json (JStr dateParam)) of
             Inl dateError \<Rightarrow>
               validation_failed ''Invalid date format. Use YYYY-MM-DD format''
           | Inr queryDate \<Rightarrow>
               (case query_fault env of
                  Some err \<Rightarrow> trip_handleError err ''Failed to fetch trips by date''
                | None \<Rightarrow>
                    \<lparr>status = 200,
                     body = JArr (map trip_json (filter (\<lambda>t. tripDate t = queryDate) trips))\<rparr>)))"

subsection \<open>Incrementing and decrementing the count\<close>

text \<open>
  \<^verbatim>\<open>$inc\<close> on one field: a missing field is created with the amount, a
  \<^verbatim>\<open>null\<close> one is refused by the server, a number is added to.
\<close>

definition inc_type_error :: exn where
  "inc_type_error = \<lparr>name = ''MongoServerError'', kind = None,
     message = ''Cannot apply $inc to a value of non-numeric type''\<rparr>"

definition conflict_error :: exn where
  "conflict_error = \<lparr>name = ''MongoServerError'', kind = None,
     message = ''Updating the path numberOfPassengers would create a conflict''\<rparr>"

definition mongo_inc :: "int \<Rightarrow> int field \<Rightarrow> exn + int field" where
  "mongo_inc d c =
     (case c of
        Absent \<Rightarrow> Inr (Val d)
      | Null \<Rightarrow> Inl inc_type_error
      | Val n \<Rightarrow> Inr (Val (n + d)))"

text \<open>
  \<^verbatim>\<open>findOneAndUpdate(filter, { $inc: { numberOfPassengers: d }, $setOnInsert: { numberOfPassengers: k } }, { new: true, runValidators: true })\<close>
  without \<^verbatim>\<open>upsert\<close> (the increment passes \<^verbatim>\<open>upsert: false\<close>, the
  decrement leaves the default): nothing is ever inserted, so \<^verbatim>\<open>$setOnInsert\<close>
  assigns nothing, and update validators do not run on \<^verbatim>\<open>$inc\<close>. Both operators
  name the same path, which a server that checks for conflicts refuses before it looks
  for a document.
\<close>

definition find_one_and_inc ::
  "'a trip_env_scheme \<Rightarrow> (trip \<Rightarrow> bool) \<Rightarrow> int \<Rightarrow> trip list \<Rightarrow> exn + trip option \<times> trip list" where
  "find_one_and_inc env matches d trips =
     (case query_fault env of
        Some e \<Rightarrow> Inl e
      | None \<Rightarrow>
          if rejects_conflicts env then Inl conflict_error
          else
            (case find matches trips of
               None \<Rightarrow> Inr (None, trips)
             | Some t \<Rightarrow>
                 (case mongo_inc d (numberOfPassengers t) of
                    Inl e \<Rightarrow> Inl e
                  | Inr c \<Rightarrow>
                      Inr (Some (t\<lparr>numberOfPassengers := c\<rparr>),
                           replace_first matches (t\<lparr>numberOfPassengers := c\<rparr>) trips))))"

text \<open>\<^verbatim>\<open>router.patch('/:id/passengers/increment')\<close>.\<close>

definition increment_passengers ::
  "'a trip_env_scheme \<Rightarrow> trip list \<Rightarrow> string \<Rightarrow> reply \<times> trip list" where
  "increment_passengers env trips i =
     (case connect_fault env of
        Some err \<Rightarrow> (trip_handleError err ''Failed to increment passengers'', trips)
      | None \<Rightarrow>
          (case cast_oid env i of
             None \<Rightarrow> (trip_handleError cast_error ''Failed to increment passengers'', trips)
           | Some oid \<Rightarrow>
               (case find_one_and_inc env (\<lambda>t. tid t = oid) 1 trips of
                  Inl err \<Rightarrow> (trip_handleError err ''Failed to increment passengers'', trips)
                | Inr (None, trips') \<Rightarrow> (not_found ''Trip not found'', trips')
                | Inr (Some updatedTrip, trips') \<Rightarrow>
                    (\<lparr>status = 200, body = trip_json updatedTrip\<rparr>, trips'))))"





text \<open>The count a collection stores for an id: \<open>None\<close> when no trip has the id.\<close>

definition count_at :: "trip list \<Rightarrow> string \<Rightarrow> int field option" where
  "count_at trips oid = map_option numberOfPassengers (find (\<lambda>t. tid t = oid) trips)"

section \<open>Passengers (models/passengerModel.js, routes/passengerRoutes.js)\<close>

record passenger =
  pid :: string
  p_firstName :: string
  p_lastName :: string
  jobRole :: "string option"

text \<open>
  What the cascading deletion reads and writes: the two collections, and the sessions
  that are open on the connection.
\<close>

record pstore =
  passenger_docs :: "passenger list"
  trip_docs :: "trip list"
  open_sessions :: nat

text \<open>
  The steps of \<^verbatim>\<open>router.delete('/:id')\<close> after the first
  \<^verbatim>\<open>dbConnect()\<close>, each of which may throw: the second
  \<^verbatim>\<open>dbConnect()\<close>, \<^verbatim>\<open>startSession()\<close> (a server that is no replica set
  fails here or at the first operation), the three operations of the transaction, and
  its commit.
\<close>

datatype step = Reconnect | StartSession | FindPassenger | DeleteTrips | DeletePassenger | Commit

record txn_env = db_env +
  step_fault :: "step \<Rightarrow> exn option"

subsection \<open>handleError and the catch block\<close>

definition passenger_handleError :: "exn \<Rightarrow> string \<Rightarrow> reply" where
  "passenger_handleError err customMessage =
     (if name err = ''CastError'' \<or> kind err = Some ''ObjectId'' then
        json_reply 400 [(''error'', JStr ''Invalid ID format'')]
      else if name err = ''ValidationError'' then
        json_reply 400 [(''error'', JStr (message err))]
      else if name err = ''MongoError'' \<or> str_includes (name err) ''Mongo'' then
        json_reply 503 [(''error'', JStr ''Database service unavailable'')]
      else json_reply 500 [(''error'', JStr customMessage)])"

definition passenger_not_found :: exn where
  "passenger_not_found = \<lparr>name = ''Error'', kind = None, message = ''Passenger not found''\<rparr>"

definition delete_catch :: "exn \<Rightarrow> reply" where
  "delete_catch err =
     (if message err = ''Passenger not found'' then not_found ''Passenger not found''
      else passenger_handleError err ''Failed to delete passenger'')"

definition passenger_deleted :: "string \<Rightarrow> reply" where
  "passenger_deleted i = json_reply 200
     [(''message'', JStr ''Passenger and associated trips deleted successfully''),
      (''passengerId'', JStr i)]"

subsection \<open>The transaction\<close>

text \<open>Removing the first element that satisfies a test.\<close>

fun remove_first :: "('a \<Rightarrow> bool) \<Rightarrow> 'a list \<Rightarrow> 'a list" where
  "remove_first P [] = []"
| "remove_first P (x # xs) = (if P x then xs else x # remove_first P xs)"

text \<open>
  The callback given to \<^verbatim>\<open>withTransaction\<close>, on the view of the collections
  that the transaction has: \<^verbatim>\<open>Passenger.findById\<close> casts the id,
  \<^verbatim>\<open>Trip.deleteMany({ passengerId })\<close> compares the stored strings with the
  parameter as it came, \<^verbatim>\<open>Passenger.findByIdAndDelete\<close> removes one document.
\<close>

definition delete_in_transaction :: "'a txn_env_scheme \<Rightarrow> string \<Rightarrow> pstore \<Rightarrow> exn + pstore" where
  "delete_in_transaction env i view =
     (case cast_oid env i of
        None \<Rightarrow> Inl cast_error
      | Some oid \<Rightarrow>
          (case step_fault env FindPassenger of
             Some e \<Rightarrow> Inl e
           | None \<Rightarrow>
               (case find (\<lambda>p. pid p = oid) (passenger_docs view) of
                  None \<Rightarrow> Inl passenger_not_found
                | Some passenger \<Rightarrow>
                    (case step_fault env DeleteTrips of
                       Some e \<Rightarrow> Inl e
                     | None \<Rightarrow>
                         (case step_fault env DeletePassenger of
                            Some e \<Rightarrow> Inl e
                          | None \<Rightarrow>
                              Inr (view
                                \<lparr>trip_docs := filter (\<lambda>t. passengerId t \<noteq> i) (trip_docs view),
                                 passenger_docs :=
                                   remove_first (\<lambda>p. pid p = oid) (passenger_docs view)\<rparr>))))))"

text \<open>
  \<^verbatim>\<open>session.withTransaction(fn)\<close>: what the callback wrote becomes the store
  when the commit succeeds; when the callback or the commit throws, the transaction is
  aborted, the store is what it was, and the exception is thrown on. (The driver's
  retry of a transient failure is not modelled: a fault here is the final one.)
\<close>

definition withTransaction ::
  "'a txn_env_scheme \<Rightarrow> (pstore \<Rightarrow> exn + pstore) \<Rightarrow> pstore \<Rightarrow> exn + pstore" where
  "withTransaction env fn s =
     (case fn s of
        Inl e \<Rightarrow> Inl e
      | Inr view \<Rightarrow>
          (case step_fault env Commit of
             Some e \<Rightarrow> Inl e
           | None \<Rightarrow> Inr view))"

definition startSession :: "pstore \<Rightarrow> pstore" where
  "startSession s = s\<lparr>open_sessions := open_sessions s + 1\<rparr>"

definition endSession :: "pstore \<Rightarrow> pstore" where
  "endSession s = s\<lparr>open_sessions := open_sessions s - 1\<rparr>"

text \<open>
  \<^verbatim>\<open>router.delete('/:id')\<close> behind \<^verbatim>\<open>[auth, admin]\<close>: the reply and the
  store afterwards. Before \<^verbatim>\<open>startSession()\<close> has returned,
  \<^verbatim>\<open>session\<close> is \<^verbatim>\<open>null\<close> and the \<^verbatim>\<open>finally\<close> block has nothing
  to end; after it, every path runs \<^verbatim>\<open>endSession()\<close>.
\<close>

definition delete_passenger :: "'a txn_env_scheme \<Rightarrow> pstore \<Rightarrow> string \<Rightarrow> reply \<times> pstore" where
  "delete_passenger env s i =
     (case connect_fault env of
        Some err \<Rightarrow> (delete_catch err, s)
      | None \<Rightarrow>
          (case step_fault env Reconnect of
             Some err \<Rightarrow> (delete_catch err, s)
           | None \<Rightarrow>
               (case step_fault env StartSession of
                  Some err \<Rightarrow> (delete_catch err, s)
                | None \<Rightarrow>
                    (case withTransaction env (delete_in_transaction env i) (startSession s) of
                       Inl err \<Rightarrow> (delete_catch err, endSession (startSession s))
                     | Inr s' \<Rightarrow> (passenger_deleted i, endSession s')))))"

text \<open>
  The store after a run that commits: the trips whose \<^verbatim>\<open>passengerId\<close> is the
  parameter \<open>i\<close> as it came are removed, and the passenger whose id is the ObjectId
  \<open>oid\<close> that the parameter casts to. \<open>trips_of\<close> are the trips that refer to an id.
\<close>

definition cascade :: "string \<Rightarrow> string \<Rightarrow> pstore \<Rightarrow> pstore" where
  "cascade oid i s =
     s\<lparr>trip_docs := filter (\<lambda>t. passengerId t \<noteq> i) (trip_docs s),
       passenger_docs := remove_first (\<lambda>p. pid p = oid) (passenger_docs s)\<rparr>"

definition trips_of :: "string \<Rightarrow> pstore \<Rightarrow> trip list" where
  "trips_of i s = filter (\<lambda>t. passengerId t = i) (trip_docs s)"

definition no_fault :: "'a txn_env_scheme \<Rightarrow> bool" where
  "no_fault env =
     (connect_fault env = None
      \<and> list_all (\<lambda>st. step_fault env st = None)
           [Reconnect, StartSession, FindPassenger, DeleteTrips, DeletePassenger, Commit])"

section \<open>Sites (models/siteModel.js, routes/siteRoutes.js)\<close>

record site =
  site_id :: string
  siteName :: string
  currentPOB :: int
  maximumPOB :: int
  pobUpdatedDate :: int

text \<open>
  The environment of the initialization: besides the database, the time of
  \<^verbatim>\<open>new Date()\<close> in milliseconds and the ObjectId the server gives to a site
  it inserts, by name.
\<close>

record site_env = query_env +
  now :: int
  site_oid :: "string \<Rightarrow> string"

definition site_handleError :: "exn \<Rightarrow> string \<Rightarrow> reply" where
  "site_handleError err customMessage =
     (if name err = ''ValidationError'' then
        json_reply 400
          [(''error'', JStr ''Validation failed''),
           (''message'', JStr (message err))]
      else if name err = ''MongoError'' \<or> str_includes (name err) ''Mongo'' then
        json_reply 503
          [(''error'', JStr ''Database service unavailable''),
           (''message'', JStr ''Please try again later'')]
      else json_reply 500 [(''error'', JStr customMessage)])"

definition locations :: "string list" where
  "locations = [''Ogle'', ''NTM'', ''NSC'', ''NDT'', ''NBD'', ''STC'']"

definition defaultMaximumPOB :: int where
  "defaultMaximumPOB = 200"

text \<open>
  One operation of the bulk write:
  \<^verbatim>\<open>updateOne: { filter: { siteName }, update: { $setOnInsert: {...} }, upsert: true }\<close>.
  A site of that name matches the filter and is left as it is, since
  \<^verbatim>\<open>$setOnInsert\<close> assigns only when a document is inserted; otherwise the
  document is inserted.
\<close>

definition upsert_site :: "'a site_env_scheme \<Rightarrow> site list \<Rightarrow> string \<Rightarrow> site list" where
  "upsert_site env sites n =
     (case find (\<lambda>s. siteName s = n) sites of
        Some s \<Rightarrow> sites
      | None \<Rightarrow>
          sites @ [\<lparr>site_id = site_oid env n, siteName = n, currentPOB = 0,
                    maximumPOB = defaultMaximumPOB, pobUpdatedDate = now env\<rparr>])"

text \<open>\<^verbatim>\<open>Site.bulkWrite(operations)\<close>: the operations in their order.\<close>

definition bulkWrite :: "'a site_env_scheme \<Rightarrow> site list \<Rightarrow> string list \<Rightarrow> site list" where
  "bulkWrite env sites ns = foldl (upsert_site env) sites ns"

text \<open>\<^verbatim>\<open>Site.find().sort({ siteName: 1 })\<close>: strings compared character by character.\<close>

fun str_le :: "string \<Rightarrow> string \<Rightarrow> bool" where
  "str_le [] t = True"
| "str_le (c # cs) [] = False"
| "str_le (c # cs) (d # ds) =
     ((of_char c :: nat) < of_char d \<or> (c = d \<and> str_le cs ds))"

fun insert_site :: "site \<Rightarrow> site list \<Rightarrow> site list" where
  "insert_site x [] = [x]"
| "insert_site x (y # ys) =
     (if str_le (siteName y) (siteName x) then y # insert_site x ys else x # y # ys)"

definition sort_sites :: "site list \<Rightarrow> site list" where
  "sort_sites sites = foldl (\<lambda>acc x. insert_site x acc) [] sites"

text \<open>
  \<^verbatim>\<open>res.json\<close> of a site; the date is written as its time value, and the
  version key \<^verbatim>\<open>__v\<close> is left out as for trips.
\<close>

definition site_json :: "site \<Rightarrow> json" where
  "site_json s = JObj
     [(''_id'', JStr (site_id s)),
      (''siteName'', JStr (siteName s)),
      (''currentPOB'', JNum (currentPOB s)),
      (''maximumPOB'', JNum (maximumPOB s)),
      (''pobUpdatedDate'', JNum (pobUpdatedDate s))]"

text \<open>\<^verbatim>\<open>router.post('/initialize')\<close>: the reply and the site collection afterwards.\<close>

definition initialize_sites :: "'a site_env_scheme \<Rightarrow> site list \<Rightarrow> reply \<times> site list" where
  "initialize_sites env sites =
     (case connect_fault env of
        Some err \<Rightarrow> (site_handleError err ''Failed to initialize sites'', sites)
      | None \<Rightarrow>
          (case query_fault env of
             Some err \<Rightarrow> (site_handleError err ''Failed to initialize sites'', sites)
           | None \<Rightarrow>
               let sites' = bulkWrite env sites locations;
                   upsertedCount = int (length sites') - int (length sites);
                   matchedCount = int (length locations) - upsertedCount
               in (json_reply 201
                     [(''message'', JStr ''Sites initialized successfully''),
                      (''created'', JNum upsertedCount),
                      (''existing'', JNum matchedCount),
                      (''sites'', JArr (map site_json (sort_sites sites')))],
                   sites')))"

section \<open>Concrete inputs\<close>

text \<open>
  A token verifier that knows four kinds of token, a user collection of one, and a
  request with a given \<^verbatim>\<open>Authorization\<close> header.
\<close>

definition demo_verify :: "string \<Rightarrow> exn + string option" where
  "demo_verify t =
     (if t = ''good'' then Inr (Some ''u1'')
      else if t = ''ghost'' then Inr (Some ''u9'')
      else if t = ''old'' then
        Inl \<lparr>name = ''TokenExpiredError'', kind = None, message = ''jwt expired''\<rparr>
      else Inl \<lparr>name = ''JsonWebTokenError'', kind = None, message = ''invalid signature''\<rparr>)"

definition demo_env :: auth_env where
  "demo_env = \<lparr>connect_fault = None, cast_oid = Some, query_fault = None,
     jwt_verify = demo_verify\<rparr>"

definition demo_user :: user where
  "demo_user = \<lparr>uid = ''u1'', userName = ''ann'', password = Some ''$2a$12$hash'',
     firstName = ''Ann'', lastName = ''Lee'', isAdmin = False, homeLocation = ''NSC'',
     tokens = [], resetPasswordToken = None, resetPasswordExpire = None,
     lastLogin = None, createdAt = 0, updatedAt = 0, vkey = Some 0\<rparr>"

definition demo_request :: "string option \<Rightarrow> request" where
  "demo_request h = \<lparr>authorization = h, req_user = None, req_token = None,
     req_userId = None\<rparr>"

text \<open>
  Trip handlers: a reachable database that accepts every id as it is, a
  \<^verbatim>\<open>Date\<close> and a \<^verbatim>\<open>parseInt\<close> that parse nothing, once with a server
  that applies conflicting operators and once with one that refuses them; a stored trip
  with a given count; a request body with a given trip date and no count.
\<close>

definition lenient_env :: trip_env where
  "lenient_env = \<lparr>connect_fault = None, cast_oid = Some, query_fault = None,
     date_parse = (\<lambda>j. None), parseInt = (\<lambda>j. None), new_oid = ''t9'',
     rejects_conflicts = False\<rparr>"

definition strict_env :: trip_env where
  "strict_env = lenient_env\<lparr>rejects_conflicts := True\<rparr>"

definition demo_trip :: "int field \<Rightarrow> trip" where
  "demo_trip c = \<lparr>tid = ''t1'', passengerId = ''p1'', fromOrigin = ''NSC'',
     toDestination = ''NTM'', tripDate = ''2024-01-05'', confirmed = True,
     numberOfPassengers = c\<rparr>"

definition demo_body :: "json \<Rightarrow> (string \<times> json) list" where
  "demo_body d = [(''passengerId'', JStr ''p1''), (''fromOrigin'', JStr ''NSC''),
     (''toDestination'', JStr ''NTM''), (''tripDate'', d), (''confirmed'', JBool True)]"

text \<open>
  A \<^verbatim>\<open>Date\<close> that parses one timestamp string, ten and a half hours into
  5 January 2024 (UTC), and nothing else.
\<close>

definition demo_parse :: "json \<Rightarrow> int option" where
  "demo_parse j = (if j = JStr ''2024-01-05T10:30:00.000Z'' then Some 1704450600000 else None)"

definition dated_env :: trip_env where
  "dated_env = lenient_env\<lparr>date_parse := demo_parse\<rparr>"

text \<open>
  Cascading deletion: a cast that takes 24 hexadecimal digits in either case to their
  lowercase form, as the ObjectId of the driver reads a string; an environment without
  faults; a store with two passengers and three trips, two of them of the first
  passenger.
\<close>

definition is_hex :: "char \<Rightarrow> bool" where
  "is_hex c = (c \<in> set ''0123456789abcdefABCDEF'')"

definition hex_cast :: "string \<Rightarrow> string option" where
  "hex_cast s = (if length s = 24 \<and> list_all is_hex s then Some (map to_lower s) else None)"

definition calm_env :: txn_env where
  "calm_env = \<lparr>connect_fault = None, cast_oid = hex_cast, step_fault = (\<lambda>st. None)\<rparr>"

definition demo_trip_of :: "string \<Rightarrow> string \<Rightarrow> trip" where
  "demo_trip_of t p = \<lparr>tid = t, passengerId = p, fromOrigin = ''NSC'',
     toDestination = ''NTM'', tripDate = ''2024-01-05'', confirmed = True,
     numberOfPassengers = Null\<rparr>"

definition demo_store :: pstore where
  "demo_store = \<lparr>passenger_docs =
       [\<lparr>pid = ''507f1f77bcf86cd799439011'', p_firstName = ''Ann'', p_lastName = ''Lee'',
         jobRole = None\<rparr>,
        \<lparr>pid = ''507f191e810c19729de860ea'', p_firstName = ''Bo'', p_lastName = ''Ray'',
         jobRole = Some ''Medic''\<rparr>],
     trip_docs = [demo_trip_of ''t1'' ''507f1f77bcf86cd799439011'',
                  demo_trip_of ''t2'' ''507f191e810c19729de860ea'',
                  demo_trip_of ''t3'' ''507f1f77bcf86cd799439011''],
     open_sessions = 0\<rparr>"

text \<open>
  Site initialization: a reachable database at a given time, and a collection that
  holds one of the known sites with occupancy values of its own.
\<close>

definition demo_site_env :: "int \<Rightarrow> site_env" where
  "demo_site_env t = \<lparr>connect_fault = None, cast_oid = Some, query_fault = None,
     now = t, site_oid = (\<lambda>n. ''id-'' @ n)\<rparr>"

definition demo_sites :: "site list" where
  "demo_sites = [\<lparr>site_id = ''s1'', siteName = ''NSC'', currentPOB = 57, maximumPOB = 120,
     pobUpdatedDate = 1700000000000\<rparr>]"

text \<open>
  Registration: a reachable database, a fixed salt and a bcrypt that computes the same
  31 characters for every password; a registration body with a given
  \<^verbatim>\<open>isAdmin\<close> field, or none.
\<close>

definition demo_user_env :: user_env where
  "demo_user_env = \<lparr>connect_fault = None, cast_oid = Some, query_fault = None,
     genSalt = ''$2a$12$abcdefghijklmnopqrstuv'',
     bcrypt_digest = (\<lambda>p s. ''0123456789012345678901234567890''),
     user_oid = ''u7'', clock = 1704450600000\<rparr>"

definition demo_registration :: "json option \<Rightarrow> (string \<times> json) list" where
  "demo_registration a =
     [(''userName'', JStr ''Mallory''), (''password'', JStr ''correct horse''),
      (''firstName'', JStr ''Mal''), (''lastName'', JStr ''Lory'')]
     @ opt_field ''isAdmin'' a"

section \<open>Results\<close>

subsection \<open>Registration\<close>

lemma user_handleError_status:
  "status (user_handleError e m) \<noteq> 201"
  by (simp add: user_handleError_def json_reply_def)

lemma validation_failed_status: "status (validation_failed m) = 400"
  by (simp add: validation_failed_def json_reply_def)

lemma save_user_result:
  "save_user env users u = Inr (saved, users') \<Longrightarrow>
   users' = users @ [saved] \<and> saved = u\<lparr>password := map_option (bcrypt_hash env) (password u)\<rparr>"
  by (auto simp: save_user_def Let_def split: if_splits option.splits)

lemma register_201:
  assumes ok: "status (fst (register_user env users b)) = 201"
  shows "\<exists>f l h.
     any_blank [field_of b ''userName'', field_of b ''password''] = Inr False
     \<and> snd (register_user env users b)
         = users @ [(new_user env (trimmed (field_of b ''userName''))
                      (trimmed (field_of b ''password'')) f l h
                      (truthy (field_of b ''isAdmin'')))
                   \<lparr>password := Some (bcrypt_hash env (trimmed (field_of b ''password'')))\<rparr>]
     \<and> body (fst (register_user env users b))
         = JObj (js_delete ''password''
              (toObject ((new_user env (trimmed (field_of b ''userName''))
                      (trimmed (field_of b ''password'')) f l h
                      (truthy (field_of b ''isAdmin'')))
                   \<lparr>password := Some (bcrypt_hash env (trimmed (field_of b ''password'')))\<rparr>)))"
proof -
  note h = user_handleError_status validation_failed_status
  have up: "connect_fault env = None"
    using ok h by (cases "connect_fault env") (simp_all add: register_user_def)
  have present: "any_blank [field_of b ''userName'', field_of b ''password''] = Inr False"
  proof (cases "any_blank [field_of b ''userName'', field_of b ''password'']")
    case (Inl e)
    with ok h up show ?thesis by (simp add: register_user_def)
  next
    case (Inr m)
    with ok h up show ?thesis by (cases m) (simp_all add: register_user_def)
  qed
  have named: "is_user_name (trimmed (field_of b ''userName''))"
    using ok h up present by (auto simp: register_user_def split: if_splits)
  have long: "\<not> (case field_of b ''password'' of Some (JStr p) \<Rightarrow> length p < 8 | _ \<Rightarrow> False)"
    using ok h up present named by (auto simp: register_user_def split: if_splits)
  have q: "query_fault env = None"
    using ok h up present named long
    by (cases "query_fault env") (simp_all add: register_user_def)
  have free: "find (\<lambda>u. userName u = userName_setters (trimmed (field_of b ''userName''))) users
      = None"
    using ok h up present named long q
    by (cases "find (\<lambda>u. userName u = userName_setters (trimmed (field_of b ''userName''))) users")
      (simp_all add: register_user_def)
  obtain f where f: "trim_or (field_of b ''firstName'') [] = Inr f"
    using ok h up present named long q free
    by (cases "trim_or (field_of b ''firstName'') []") (simp_all add: register_user_def)
  obtain l where l: "trim_or (field_of b ''lastName'') [] = Inr l"
    using ok h up present named long q free f
    by (cases "trim_or (field_of b ''lastName'') []") (simp_all add: register_user_def)
  obtain hl where hl: "trim_or (field_of b ''homeLocation'') ''NSC'' = Inr hl"
    using ok h up present named long q free f l
    by (cases "trim_or (field_of b ''homeLocation'') ''NSC''") (simp_all add: register_user_def)
  let ?u = "new_user env (trimmed (field_of b ''userName''))
      (trimmed (field_of b ''password'')) f l hl (truthy (field_of b ''isAdmin''))"
  obtain saved users' where s: "save_user env users ?u = Inr (saved, users')"
    using ok h up present named long q free f l hl
    by (cases "save_user env users ?u") (auto simp: register_user_def)
  have r: "register_user env users b
      = (\<lparr>status = 201, body = JObj (js_delete ''password'' (toObject saved))\<rparr>, users')"
    using up present named long q free f l hl s by (simp add: register_user_def)
  have "users' = users @ [saved]"
    and "saved = ?u\<lparr>password := Some (bcrypt_hash env (trimmed (field_of b ''password'')))\<rparr>"
    using save_user_result [OF s] by (simp_all add: new_user_def)
  with r present show ?thesis by auto
qed


lemma field_of_js_delete:
  "field_of (js_delete k' kvs) k = (if k = k' then None else field_of kvs k)"
  by (induction kvs) (auto simp: js_delete_def)

lemma not_blank_string:
  "blank v = Inr False \<Longrightarrow> \<exists>p. v = Some (JStr p) \<and> trimmed v = trim p"
  by (auto simp: blank_def opt_trim_def trimmed_def
      split: option.splits json.splits sum.splits if_splits)

lemma any_blank_second:
  "any_blank [v, w] = Inr False \<Longrightarrow> blank w = Inr False"
  by (auto split: sum.splits bool.splits if_splits)

lemma hash_differs:
  "\<not> startsWith p (genSalt env) \<Longrightarrow> bcrypt_hash env s \<noteq> p"
  by (auto simp: bcrypt_hash_def startsWith_def)

text \<open>
  C9. Registration takes no identity: the handler is a function of the request body
  alone. Whenever it answers 201, it has added one user whose admin flag is
  \<^verbatim>\<open>Boolean(isAdmin)\<close> of the body: true for every truthy value (also the string
  \<^verbatim>\<open>false\<close>), false when the field is omitted or falsy. So an anonymous caller
  creates an administrator by sending a truthy \<^verbatim>\<open>isAdmin\<close>.
\<close>

theorem register_honours_isAdmin:
  assumes "status (fst (register_user env users b)) = 201"
  shows "\<exists>u. snd (register_user env users b) = users @ [u]
           \<and> isAdmin u = truthy (field_of b ''isAdmin'')"
  using register_201 [OF assms] by (auto simp: new_user_def)

text \<open>
  C6. Whenever registration answers 201, the body had a string password \<open>p\<close>, and the
  user added stores the bcrypt hash of the trimmed \<open>p\<close>: the salt drawn for this request
  followed by what bcrypt computes. The stored password therefore differs from the
  submitted one, unless the submitted one begins with that very salt (bcrypt itself is a
  parameter here, so nothing more can be said of such a plaintext). The reply has no
  \<^verbatim>\<open>password\<close> key. Nor has any other serialization of a user: \<^verbatim>\<open>toJSON\<close>,
  which \<^verbatim>\<open>res.json\<close> applies to every document, and the plain object of the
  login reply both delete the key.
\<close>

theorem password_stored_hashed:
  assumes "status (fst (register_user env users b)) = 201"
  shows "(\<exists>u p kvs. field_of b ''password'' = Some (JStr p)
            \<and> snd (register_user env users b) = users @ [u]
            \<and> password u = Some (bcrypt_hash env (trim p))
            \<and> (\<not> startsWith p (genSalt env) \<longrightarrow> password u \<noteq> Some p)
            \<and> body (fst (register_user env users b)) = JObj kvs
            \<and> field_of kvs ''password'' = None)
       \<and> field_of (toJSON w) ''password'' = None
       \<and> field_of (login_user w) ''password'' = None"
proof -
  from register_201 [OF assms] obtain f l h where
    present: "any_blank [field_of b ''userName'', field_of b ''password''] = Inr False"
    and stored: "snd (register_user env users b)
         = users @ [(new_user env (trimmed (field_of b ''userName''))
                      (trimmed (field_of b ''password'')) f l h
                      (truthy (field_of b ''isAdmin'')))
                   \<lparr>password := Some (bcrypt_hash env (trimmed (field_of b ''password'')))\<rparr>]"
    and reply: "body (fst (register_user env users b))
         = JObj (js_delete ''password''
              (toObject ((new_user env (trimmed (field_of b ''userName''))
                      (trimmed (field_of b ''password'')) f l h
                      (truthy (field_of b ''isAdmin'')))
                   \<lparr>password := Some (bcrypt_hash env (trimmed (field_of b ''password'')))\<rparr>)))"
    by blast
  from not_blank_string [OF any_blank_second [OF present]] obtain p where
    p: "field_of b ''password'' = Some (JStr p)"
    and t: "trimmed (field_of b ''password'') = trim p"
    by blast
  have first: "\<exists>u p kvs. field_of b ''password'' = Some (JStr p)
            \<and> snd (register_user env users b) = users @ [u]
            \<and> password u = Some (bcrypt_hash env (trim p))
            \<and> (\<not> startsWith p (genSalt env) \<longrightarrow> password u \<noteq> Some p)
            \<and> body (fst (register_user env users b)) = JObj kvs
            \<and> field_of kvs ''password'' = None"
    using p t stored reply hash_differs [of p env "trim p"]
    by (auto simp: field_of_js_delete)
  have "field_of (toJSON w) ''password'' = None"
    and "field_of (login_user w) ''password'' = None"
    by (simp_all add: toJSON_def login_user_def field_of_js_delete)
  with first show ?thesis by blast
qed

lemma demo_registered:
  "status (fst (register_user demo_user_env [] (demo_registration a))) = 201"
  by (cases a)
    (simp_all add: register_user_def demo_user_env_def demo_registration_def opt_field_def
      blank_def opt_trim_def trimmed_def trim_def is_space_def is_user_name_def
      is_name_char_def trim_or_def save_user_def schema_valid_def new_user_def
      userName_setters_def Let_def)

theorem register_honours_isAdmin_witness:
  "status (fst (register_user demo_user_env [] (demo_registration (Some (JBool True))))) = 201
   \<and> map isAdmin (snd (register_user demo_user_env [] (demo_registration (Some (JBool True)))))
       = [True]
   \<and> map isAdmin (snd (register_user demo_user_env [] (demo_registration (Some (JStr ''false'')))))
       = [True]
   \<and> map isAdmin (snd (register_user demo_user_env [] (demo_registration None))) = [False]"
proof -
  have a: "field_of (demo_registration v) ''isAdmin'' = v" for v
    by (cases v) (simp_all add: demo_registration_def opt_field_def)
  from register_honours_isAdmin [OF demo_registered, of "Some (JBool True)"]
    register_honours_isAdmin [OF demo_registered, of "Some (JStr ''false'')"]
    register_honours_isAdmin [OF demo_registered, of None]
    demo_registered [of "Some (JBool True)"]
  show ?thesis by (auto simp: a)
qed

theorem password_stored_hashed_witness:
  "status (fst (register_user demo_user_env [] (demo_registration None))) = 201
   \<and> map password (snd (register_user demo_user_env [] (demo_registration None)))
       = [Some ''$2a$12$abcdefghijklmnopqrstuv0123456789012345678901234567890'']
   \<and> (\<exists>kvs. body (fst (register_user demo_user_env [] (demo_registration None))) = JObj kvs
         \<and> field_of kvs ''password'' = None)
   \<and> field_of (toJSON demo_user) ''password'' = None"
proof -
  have p: "field_of (demo_registration None) ''password'' = Some (JStr ''correct horse'')"
    by (simp add: demo_registration_def)
  have h: "bcrypt_hash demo_user_env (trim ''correct horse'')
      = ''$2a$12$abcdefghijklmnopqrstuv0123456789012345678901234567890''"
    by (simp add: bcrypt_hash_def demo_user_env_def)
  from password_stored_hashed [where env = demo_user_env and users = "[]"
      and b = "demo_registration None" and w = demo_user]
    demo_registered [of None] p h
  show ?thesis by auto
qed

subsection \<open>Authentication\<close>

lemma str_replace_prefix:
  "startsWith s p \<Longrightarrow> str_replace s p r = r @ drop (length p) s"
  by (cases s) (auto simp: startsWith_def)

lemma auth_replies_distinct:
  "distinct [auth_required, invalid_token_format, token_missing, jwt_invalid,
     jwt_expired, user_not_found]"
  by (simp add: auth_required_def invalid_token_format_def token_missing_def
      jwt_invalid_def jwt_expired_def user_not_found_def json_reply_def)

lemma auth_replies_401:
  "list_all (\<lambda>r. status r = 401) [auth_required, invalid_token_format, token_missing,
     jwt_invalid, jwt_expired, user_not_found]"
  by (simp add: auth_required_def invalid_token_format_def token_missing_def
      jwt_invalid_def jwt_expired_def user_not_found_def json_reply_def)

text \<open>
  The middleware connects before it looks at the request: when \<^verbatim>\<open>dbConnect()\<close>
  throws, the reply is that of the catch block (503 for an error of the driver), whatever
  the header is.
\<close>

lemma auth_without_database:
  "connect_fault env = Some err \<Longrightarrow> auth env users req = Respond (auth_catch err)"
  by (simp add: auth_def)

lemma trim_demo:
  "trim ''good'' = ''good''" "trim ''ghost'' = ''ghost''" "trim ''old'' = ''old''"
  "trim ''bad'' = ''bad''" "trim '' '' = []"
  by (simp_all add: trim_def is_space_def)

text \<open>
  C4. While the database connection is up, the authentication middleware answers with
  the 401 reply of the first check that fails, in this order: no
  \<^verbatim>\<open>Authorization\<close> header (authentication required); a header that does
  not start with \<^verbatim>\<open>Bearer \<close> (invalid token format); an empty token after
  the prefix (invalid token, token missing); a token that \<^verbatim>\<open>jwt.verify\<close>
  rejects with JsonWebTokenError (invalid token, JWT_INVALID) or with
  TokenExpiredError (token expired, JWT_EXPIRED); a verified token whose user is not
  in the collection (invalid token, user not found). The six replies all carry status
  401 and are pairwise different. When every check passes, the user found is attached
  to the request without its password (and without \<^verbatim>\<open>__v\<close>), together with
  the token and the user id, and the request is passed on.
\<close>

theorem auth_order:
  assumes up: "connect_fault env = None"
  shows
    "(authorization req = None \<longrightarrow> auth env users req = Respond auth_required)
   \<and> (authorization req = Some h \<and> h \<noteq> [] \<and> \<not> startsWith h ''Bearer ''
        \<longrightarrow> auth env users req = Respond invalid_token_format)
   \<and> (authorization req = Some h \<and> startsWith h ''Bearer '' \<and> trim (drop 7 h) = []
        \<longrightarrow> auth env users req = Respond token_missing)
   \<and> (authorization req = Some h \<and> startsWith h ''Bearer '' \<and> trim (drop 7 h) \<noteq> []
        \<and> jwt_verify env (trim (drop 7 h)) = Inl e \<and> name e = ''JsonWebTokenError''
        \<longrightarrow> auth env users req = Respond jwt_invalid)
   \<and> (authorization req = Some h \<and> startsWith h ''Bearer '' \<and> trim (drop 7 h) \<noteq> []
        \<and> jwt_verify env (trim (drop 7 h)) = Inl e \<and> name e = ''TokenExpiredError''
        \<longrightarrow> auth env users req = Respond jwt_expired)
   \<and> (authorization req = Some h \<and> startsWith h ''Bearer '' \<and> trim (drop 7 h) \<noteq> []
        \<and> jwt_verify env (trim (drop 7 h)) = Inr (Some i)
        \<and> cast_oid env i = Some oid \<and> query_fault env = None
        \<and> find (\<lambda>u. uid u = oid) users = None
        \<longrightarrow> auth env users req = Respond user_not_found)
   \<and> (authorization req = Some h \<and> startsWith h ''Bearer '' \<and> trim (drop 7 h) \<noteq> []
        \<and> jwt_verify env (trim (drop 7 h)) = Inr (Some i)
        \<and> cast_oid env i = Some oid \<and> query_fault env = None
        \<and> find (\<lambda>u. uid u = oid) users = Some u
        \<longrightarrow> auth env users req
              = Next (req\<lparr>req_token := Some (trim (drop 7 h)),
                         req_user := Some (u\<lparr>password := None, vkey := None\<rparr>),
                         req_userId := Some (uid u)\<rparr>))
   \<and> distinct [auth_required, invalid_token_format, token_missing, jwt_invalid,
        jwt_expired, user_not_found]
   \<and> list_all (\<lambda>r. status r = 401) [auth_required, invalid_token_format, token_missing,
        jwt_invalid, jwt_expired, user_not_found]"
proof -
  have rep: "str_replace h ''Bearer '' [] = drop 7 h" if "startsWith h ''Bearer ''"
    using str_replace_prefix [OF that, of "[]"] by (simp add: eval_nat_numeral)
  have c1: "authorization req = None \<longrightarrow> auth env users req = Respond auth_required"
    by (simp add: auth_def up)
  have c2: "authorization req = Some h \<and> h \<noteq> [] \<and> \<not> startsWith h ''Bearer ''
        \<longrightarrow> auth env users req = Respond invalid_token_format"
    by (simp add: auth_def up)
  have ne: "h \<noteq> []" if "startsWith h ''Bearer ''"
    using that by (auto simp: startsWith_def)
  have c3: "authorization req = Some h \<and> startsWith h ''Bearer '' \<and> trim (drop 7 h) = []
        \<longrightarrow> auth env users req = Respond token_missing"
    using rep ne by (simp add: auth_def up Let_def)
  have c4: "authorization req = Some h \<and> startsWith h ''Bearer '' \<and> trim (drop 7 h) \<noteq> []
        \<and> jwt_verify env (trim (drop 7 h)) = Inl e \<and> name e = ''JsonWebTokenError''
        \<longrightarrow> auth env users req = Respond jwt_invalid"
    using rep ne by (simp add: auth_def up Let_def auth_catch_def)
  have c5: "authorization req = Some h \<and> startsWith h ''Bearer '' \<and> trim (drop 7 h) \<noteq> []
        \<and> jwt_verify env (trim (drop 7 h)) = Inl e \<and> name e = ''TokenExpiredError''
        \<longrightarrow> auth env users req = Respond jwt_expired"
    using rep ne by (simp add: auth_def up Let_def auth_catch_def)
  have c6: "authorization req = Some h \<and> startsWith h ''Bearer '' \<and> trim (drop 7 h) \<noteq> []
        \<and> jwt_verify env (trim (drop 7 h)) = Inr (Some i)
        \<and> cast_oid env i = Some oid \<and> query_fault env = None
        \<and> find (\<lambda>u. uid u = oid) users = None
        \<longrightarrow> auth env users req = Respond user_not_found"
    using rep ne by (simp add: auth_def up Let_def findById_identity_def)
  have c7: "authorization req = Some h \<and> startsWith h ''Bearer '' \<and> trim (drop 7 h) \<noteq> []
        \<and> jwt_verify env (trim (drop 7 h)) = Inr (Some i)
        \<and> cast_oid env i = Some oid \<and> query_fault env = None
        \<and> find (\<lambda>u. uid u = oid) users = Some u
        \<longrightarrow> auth env users req
              = Next (req\<lparr>req_token := Some (trim (drop 7 h)),
                         req_user := Some (u\<lparr>password := None, vkey := None\<rparr>),
                         req_userId := Some (uid u)\<rparr>)"
    using rep ne by (simp add: auth_def up Let_def findById_identity_def select_identity_def)
  from c1 c2 c3 c4 c5 c6 c7 auth_replies_distinct auth_replies_401
  show ?thesis by blast
qed

theorem auth_order_witness:
  "connect_fault demo_env = None
   \<and> auth demo_env [demo_user] (demo_request None) = Respond auth_required
   \<and> auth demo_env [demo_user] (demo_request (Some ''Basic abc''))
       = Respond invalid_token_format
   \<and> auth demo_env [demo_user] (demo_request (Some ''Bearer  '')) = Respond token_missing
   \<and> auth demo_env [demo_user] (demo_request (Some ''Bearer bad'')) = Respond jwt_invalid
   \<and> auth demo_env [demo_user] (demo_request (Some ''Bearer old'')) = Respond jwt_expired
   \<and> auth demo_env [demo_user] (demo_request (Some ''Bearer ghost''))
       = Respond user_not_found
   \<and> auth demo_env [demo_user] (demo_request (Some ''Bearer good''))
       = Next \<lparr>authorization = Some ''Bearer good'',
               req_user = Some (demo_user\<lparr>password := None, vkey := None\<rparr>),
               req_token = Some ''good'', req_userId = Some ''u1''\<rparr>"
proof -
  have up: "connect_fault demo_env = None" by (simp add: demo_env_def)
  note th = auth_order [OF up, where users = "[demo_user]"]
  have a1: "auth demo_env [demo_user] (demo_request None) = Respond auth_required"
    using th [where req = "demo_request None"] by (simp add: demo_request_def)
  have a2: "auth demo_env [demo_user] (demo_request (Some ''Basic abc''))
       = Respond invalid_token_format"
    using th [where req = "demo_request (Some ''Basic abc'')" and h = "''Basic abc''"]
    by (simp add: demo_request_def startsWith_def)
  have a3: "auth demo_env [demo_user] (demo_request (Some ''Bearer  '')) = Respond token_missing"
    using th [where req = "demo_request (Some ''Bearer  '')" and h = "''Bearer  ''"]
    by (simp add: demo_request_def startsWith_def trim_demo)
  have a4: "auth demo_env [demo_user] (demo_request (Some ''Bearer bad'')) = Respond jwt_invalid"
    using th [where req = "demo_request (Some ''Bearer bad'')" and h = "''Bearer bad''"
        and e = "\<lparr>name = ''JsonWebTokenError'', kind = None, message = ''invalid signature''\<rparr>"]
    by (simp add: demo_request_def startsWith_def trim_demo demo_env_def demo_verify_def)
  have a5: "auth demo_env [demo_user] (demo_request (Some ''Bearer old'')) = Respond jwt_expired"
    using th [where req = "demo_request (Some ''Bearer old'')" and h = "''Bearer old''"
        and e = "\<lparr>name = ''TokenExpiredError'', kind = None, message = ''jwt expired''\<rparr>"]
    by (simp add: demo_request_def startsWith_def trim_demo demo_env_def demo_verify_def)
  have a6: "auth demo_env [demo_user] (demo_request (Some ''Bearer ghost''))
       = Respond user_not_found"
    using th [where req = "demo_request (Some ''Bearer ghost'')" and h = "''Bearer ghost''"
        and i = "''u9''" and oid = "''u9''"]
    by (simp add: demo_request_def startsWith_def trim_demo demo_env_def demo_verify_def
        demo_user_def)
  have a7: "auth demo_env [demo_user] (demo_request (Some ''Bearer good''))
       = Next \<lparr>authorization = Some ''Bearer good'',
               req_user = Some (demo_user\<lparr>password := None, vkey := None\<rparr>),
               req_token = Some ''good'', req_userId = Some ''u1''\<rparr>"
    using th [where req = "demo_request (Some ''Bearer good'')" and h = "''Bearer good''"
        and i = "''u1''" and oid = "''u1''" and u = demo_user]
    by (simp add: demo_request_def startsWith_def trim_demo demo_env_def demo_verify_def
        demo_user_def)
  from up a1 a2 a3 a4 a5 a6 a7 show ?thesis by blast
qed

subsection \<open>Authorization\<close>

text \<open>
  C5. The admin middleware answers 401 when no identity is attached to the request,
  answers 403 when an identity is attached whose admin flag is false, and otherwise
  passes the request on unchanged. It is a function of the request alone: no user
  collection is among its arguments, so it cannot consult the database.
\<close>

theorem admin_gate:
  "status_of (admin (req\<lparr>req_user := None\<rparr>)) = Some 401
   \<and> status_of (admin (req\<lparr>req_user := Some (u\<lparr>isAdmin := False\<rparr>)\<rparr>)) = Some 403
   \<and> admin (req\<lparr>req_user := Some (u\<lparr>isAdmin := True\<rparr>)\<rparr>)
         = Next (req\<lparr>req_user := Some (u\<lparr>isAdmin := True\<rparr>)\<rparr>)"
  by (simp add: admin_def json_reply_def)

subsection \<open>Trips\<close>

lemma day_of_year_8710: "day_of_year 8710 = 310"
  by (simp add: day_of_year_def year_of_era_def)

lemma month_of_310: "month_of 310 = 1"
  by (simp add: month_of_def month_point_def)

lemma day_of_month_310: "day_of_month 310 = 5"
  by (simp add: day_of_month_def month_point_def)

lemma civil_19727: "civil_from_days 19727 = (2024, 1, 5)"
  by (simp add: civil_from_days_def day_of_year_8710 month_of_310 day_of_month_310
      year_of_era_def)

lemma iso_date_5_jan: "t div 86400000 = 19727 \<Longrightarrow> iso_date t = ''2024-01-05''"
  by (simp add: iso_date_def civil_19727 iso_year_def pad4_def pad2_def digit_def)

lemma is_ymd_5_jan: "is_ymd ''2024-01-05''"
  by (simp add: is_ymd_def is_digit_def)

lemma handleError_status:
  "status (trip_handleError e m) = 400 \<or> status (trip_handleError e m) = 503
   \<or> status (trip_handleError e m) = 500"
  by (simp add: trip_handleError_def json_reply_def)

lemma fixed_status:
  "status fields_required = 400" "status bad_trip_date = 400"
  "status (validation_failed m) = 400" "status (not_found m) = 404"
  by (simp_all add: fields_required_def bad_trip_date_def validation_failed_def not_found_def
      json_reply_def)

lemma save_trip_appends:
  "save_trip env trips d = Inr (t, trips') \<Longrightarrow> trips' = trips @ [t] \<and> tripDate t = d_tripDate d"
  by (auto simp: save_trip_def Let_def split: sum.splits option.splits)

lemma create_trip_201:
  assumes ok: "status (fst (create_trip env trips b)) = 201"
  shows "\<exists>d t. formatTripDate (date_parse env) (js_arg (field_of b ''tripDate'')) = Inr d
           \<and> snd (create_trip env trips b) = trips @ [t] \<and> tripDate t = d"
proof -
  have h: "status (trip_handleError e m) \<noteq> 201" for e m
    using handleError_status [of e m] by auto
  have up: "connect_fault env = None"
    using ok h by (cases "connect_fault env") (simp_all add: create_trip_def)
  have present: "trip_fields_missing b = Inr False"
  proof (cases "trip_fields_missing b")
    case (Inl e)
    with ok h up show ?thesis by (simp add: create_trip_def)
  next
    case (Inr m)
    with ok up show ?thesis by (cases m) (simp_all add: create_trip_def fixed_status)
  qed
  obtain d where d: "formatTripDate (date_parse env) (js_arg (field_of b ''tripDate'')) = Inr d"
    using ok up present
    by (cases "formatTripDate (date_parse env) (js_arg (field_of b ''tripDate''))")
      (simp_all add: create_trip_def fixed_status)
  obtain t trips' where
    s: "save_trip env trips (build_trip_data (parseInt env) b d) = Inr (t, trips')"
    using ok h up present d
    by (cases "save_trip env trips (build_trip_data (parseInt env) b d)")
      (auto simp: create_trip_def)
  have "snd (create_trip env trips b) = trips'"
    using up present d s by (simp add: create_trip_def)
  moreover have "trips' = trips @ [t] \<and> tripDate t = d"
    using save_trip_appends [OF s] by (simp add: build_trip_data_def)
  ultimately show ?thesis using d by blast
qed

lemma replace_first_member:
  "find P xs = Some x \<Longrightarrow> y \<in> set (replace_first P y xs)"
  by (induction xs) (auto split: if_splits)

lemma set_update_found:
  assumes "findByIdAndUpdate_set env trips i d = Inr (Some t, trips')"
  shows "t \<in> set trips' \<and> cast_oid env i = Some (tid t) \<and> tripDate t = d_tripDate d"
proof -
  from assms obtain oid c u where
    c: "cast_oid env i = Some oid" and u: "find (\<lambda>t. tid t = oid) trips = Some u"
    and t: "t = set_trip d c u" and r: "trips' = replace_first (\<lambda>t. tid t = oid) t trips"
    by (auto simp: findByIdAndUpdate_set_def split: option.splits sum.splits)
  have "tid u = oid" using u by (auto simp: find_Some_iff)
  then have "tid t = oid" and "tripDate t = d_tripDate d"
    using t by (simp_all add: set_trip_def)
  then show ?thesis
    using c r replace_first_member [OF u] by simp
qed

lemma update_trip_200:
  assumes ok: "status (fst (update_trip env trips i b)) = 200"
  shows "\<exists>d t. formatTripDate (date_parse env) (js_arg (field_of b ''tripDate'')) = Inr d
           \<and> t \<in> set (snd (update_trip env trips i b)) \<and> cast_oid env i = Some (tid t)
           \<and> tripDate t = d"
proof -
  have h: "status (trip_handleError e m) \<noteq> 200" for e m
    using handleError_status [of e m] by auto
  have up: "connect_fault env = None"
    using ok h by (cases "connect_fault env") (simp_all add: update_trip_def)
  have present: "trip_fields_missing b = Inr False"
  proof (cases "trip_fields_missing b")
    case (Inl e)
    with ok h up show ?thesis by (simp add: update_trip_def)
  next
    case (Inr m)
    with ok up show ?thesis by (cases m) (simp_all add: update_trip_def fixed_status)
  qed
  obtain d where d: "formatTripDate (date_parse env) (js_arg (field_of b ''tripDate'')) = Inr d"
    using ok up present
    by (cases "formatTripDate (date_parse env) (js_arg (field_of b ''tripDate''))")
      (simp_all add: update_trip_def fixed_status)
  obtain t trips' where
    s: "findByIdAndUpdate_set env trips i (build_trip_data (parseInt env) b d)
          = Inr (Some t, trips')"
  proof (cases "findByIdAndUpdate_set env trips i (build_trip_data (parseInt env) b d)")
    case (Inl e)
    with ok h up present d show ?thesis by (simp add: update_trip_def)
  next
    case (Inr p)
    obtain r trips' where p: "p = (r, trips')" by (cases p)
    show ?thesis
    proof (cases r)
      case None
      with ok up present d Inr p show ?thesis by (simp add: update_trip_def fixed_status)
    next
      case (Some t)
      with Inr p that show ?thesis by simp
    qed
  qed
  have "snd (update_trip env trips i b) = trips'"
    using up present d s by (simp add: update_trip_def)
  moreover have "t \<in> set trips' \<and> cast_oid env i = Some (tid t) \<and> tripDate t = d"
    using set_update_found [OF s] by (simp add: build_trip_data_def)
  ultimately show ?thesis using d by blast
qed

lemma formatTripDate_fails:
  "formatTripDate parse v = Inl e \<longleftrightarrow>
     e = invalid_date \<and> new_Date parse v = None \<and> (\<forall>s. v = Json (JStr s) \<longrightarrow> \<not> is_ymd s)"
proof (cases "\<exists>s. v = Json (JStr s)")
  case True
  then obtain s where "v = Json (JStr s)" by blast
  then show ?thesis
    by (auto simp: formatTripDate_def date_via_Date_def split: option.splits)
next
  case False
  then have "formatTripDate parse v = date_via_Date parse v"
    by (cases v; simp add: formatTripDate_def split: json.splits)
  with False show ?thesis
    by (auto simp: date_via_Date_def split: option.splits)
qed

lemma formatTripDate_instant:
  assumes "\<forall>x. v = Json (JStr x) \<longrightarrow> \<not> is_ymd x" and "new_Date parse v = Some t"
  shows "formatTripDate parse v = Inr (iso_date t)"
proof (cases "\<exists>s. v = Json (JStr s)")
  case True
  then obtain s where "v = Json (JStr s)" by blast
  with assms show ?thesis
    by (simp add: formatTripDate_def date_via_Date_def)
next
  case False
  then have "formatTripDate parse v = date_via_Date parse v"
    by (cases v; simp add: formatTripDate_def split: json.splits)
  with assms show ?thesis
    by (simp add: date_via_Date_def)
qed

text \<open>
  C7, as amended. \<^verbatim>\<open>formatTripDate\<close> keeps a string of the shape
  \<^verbatim>\<open>dddd-dd-dd\<close> as it is, whether or not it names a calendar date, and turns any
  other input into the UTC calendar date of the instant \<^verbatim>\<open>new Date\<close> gives it:
  the string \<^verbatim>\<open>2024-01-05\<close>, a timestamp string and a Date object whose instant
  lies on 5 January 2024 (UTC) all give \<^verbatim>\<open>2024-01-05\<close>. A trip that creation
  answers with 201, or a full update with 200, stores that formatted date, and the
  date-scoped query filters by it. An input that has not that shape and that
  \<^verbatim>\<open>new Date\<close> cannot read makes \<^verbatim>\<open>formatTripDate\<close> throw; creation,
  full update and the date-scoped query then answer 400 and change nothing.
\<close>

theorem trip_date_normalised:
  "formatTripDate parse (Json (JStr ''2024-01-05'')) = Inr ''2024-01-05''
   \<and> (is_ymd s \<longrightarrow> formatTripDate parse (Json (JStr s)) = Inr s)
   \<and> (\<not> is_ymd s \<and> parse (JStr s) = Some t \<and> t div 86400000 = 19727
        \<longrightarrow> formatTripDate parse (Json (JStr s)) = Inr ''2024-01-05'')
   \<and> (t div 86400000 = 19727
        \<longrightarrow> formatTripDate parse (DateObj (Some t)) = Inr ''2024-01-05'')
   \<and> ((\<forall>x. v = Json (JStr x) \<longrightarrow> \<not> is_ymd x) \<and> new_Date parse v = Some t
        \<longrightarrow> formatTripDate parse v = Inr (iso_date t))
   \<and> (status (fst (create_trip env trips b)) = 201
        \<longrightarrow> (\<exists>d u. formatTripDate (date_parse env) (js_arg (field_of b ''tripDate'')) = Inr d
                 \<and> snd (create_trip env trips b) = trips @ [u] \<and> tripDate u = d))
   \<and> (status (fst (update_trip env trips i b)) = 200
        \<longrightarrow> (\<exists>d u. formatTripDate (date_parse env) (js_arg (field_of b ''tripDate'')) = Inr d
                 \<and> u \<in> set (snd (update_trip env trips i b))
                 \<and> cast_oid env i = Some (tid u) \<and> tripDate u = d))
   \<and> (connect_fault env = None \<and> query_fault env = None
        \<and> formatTripDate (date_parse env) (Json (JStr p)) = Inr q
        \<longrightarrow> trips_by_date env trips p
              = \<lparr>status = 200,
                 body = JArr (map trip_json (filter (\<lambda>u. tripDate u = q) trips))\<rparr>)
   \<and> ((\<forall>x. v = Json (JStr x) \<longrightarrow> \<not> is_ymd x) \<and> new_Date parse v = None
        \<longrightarrow> formatTripDate parse v = Inl invalid_date)
   \<and> (connect_fault env = None \<and> trip_fields_missing b = Inr False
        \<and> formatTripDate (date_parse env) (js_arg (field_of b ''tripDate'')) = Inl e
        \<longrightarrow> create_trip env trips b = (bad_trip_date, trips)
          \<and> update_trip env trips i b = (bad_trip_date, trips)
          \<and> status bad_trip_date = 400)
   \<and> (connect_fault env = None \<and> formatTripDate (date_parse env) (Json (JStr p)) = Inl e
        \<longrightarrow> status (trips_by_date env trips p) = 400)"
proof -
  have c1: "formatTripDate parse (Json (JStr ''2024-01-05'')) = Inr ''2024-01-05''"
    by (simp add: formatTripDate_def is_ymd_5_jan)
  have c2: "is_ymd s \<longrightarrow> formatTripDate parse (Json (JStr s)) = Inr s"
    by (simp add: formatTripDate_def)
  have c3: "\<not> is_ymd s \<and> parse (JStr s) = Some t \<and> t div 86400000 = 19727
        \<longrightarrow> formatTripDate parse (Json (JStr s)) = Inr ''2024-01-05''"
    by (simp add: formatTripDate_def date_via_Date_def new_Date_def iso_date_5_jan)
  have c4: "t div 86400000 = 19727
        \<longrightarrow> formatTripDate parse (DateObj (Some t)) = Inr ''2024-01-05''"
    by (simp add: formatTripDate_def date_via_Date_def new_Date_def iso_date_5_jan)
  have c4': "(\<forall>x. v = Json (JStr x) \<longrightarrow> \<not> is_ymd x) \<and> new_Date parse v = Some t
        \<longrightarrow> formatTripDate parse v = Inr (iso_date t)"
    using formatTripDate_instant [of v parse t] by blast
  have c5: "status (fst (create_trip env trips b)) = 201
        \<longrightarrow> (\<exists>d u. formatTripDate (date_parse env) (js_arg (field_of b ''tripDate'')) = Inr d
                 \<and> snd (create_trip env trips b) = trips @ [u] \<and> tripDate u = d)"
    using create_trip_201 by blast
  have c6: "status (fst (update_trip env trips i b)) = 200
        \<longrightarrow> (\<exists>d u. formatTripDate (date_parse env) (js_arg (field_of b ''tripDate'')) = Inr d
                 \<and> u \<in> set (snd (update_trip env trips i b))
                 \<and> cast_oid env i = Some (tid u) \<and> tripDate u = d)"
    using update_trip_200 by blast
  have c7: "connect_fault env = None \<and> query_fault env = None
        \<and> formatTripDate (date_parse env) (Json (JStr p)) = Inr q
        \<longrightarrow> trips_by_date env trips p
              = \<lparr>status = 200,
                 body = JArr (map trip_json (filter (\<lambda>u. tripDate u = q) trips))\<rparr>"
    by (simp add: trips_by_date_def)
  have c8: "(\<forall>x. v = Json (JStr x) \<longrightarrow> \<not> is_ymd x) \<and> new_Date parse v = None
        \<longrightarrow> formatTripDate parse v = Inl invalid_date"
    using formatTripDate_fails [of parse v invalid_date] by blast
  have c9: "connect_fault env = None \<and> trip_fields_missing b = Inr False
        \<and> formatTripDate (date_parse env) (js_arg (field_of b ''tripDate'')) = Inl e
        \<longrightarrow> create_trip env trips b = (bad_trip_date, trips)
          \<and> update_trip env trips i b = (bad_trip_date, trips)
          \<and> status bad_trip_date = 400"
    by (simp add: create_trip_def update_trip_def fixed_status)
  have c10: "connect_fault env = None \<and> formatTripDate (date_parse env) (Json (JStr p)) = Inl e
        \<longrightarrow> status (trips_by_date env trips p) = 400"
    by (simp add: trips_by_date_def fixed_status)
  from c1 c2 c3 c4 c4' c5 c6 c7 c8 c9 c10 show ?thesis by blast
qed

lemma demo_body_present: "trip_fields_missing (demo_body d) = Inr False \<longleftrightarrow> truthy (Some d)"
  by (simp add: trip_fields_missing_def demo_body_def blank_def opt_trim_def trim_def
      is_space_def)

theorem trip_date_normalised_witness:
  "formatTripDate demo_parse (Json (JStr ''2024-01-05T10:30:00.000Z'')) = Inr ''2024-01-05''
   \<and> formatTripDate demo_parse (DateObj (Some 1704450600000)) = Inr ''2024-01-05''
   \<and> formatTripDate demo_parse (Json (JStr ''1999-12-31'')) = Inr ''1999-12-31''
   \<and> formatTripDate demo_parse (Json (JStr ''next week'')) = Inl invalid_date
   \<and> create_trip dated_env [] (demo_body (JStr ''next week'')) = (bad_trip_date, [])
   \<and> update_trip dated_env [demo_trip Null] ''t1'' (demo_body (JStr ''next week''))
       = (bad_trip_date, [demo_trip Null])
   \<and> status (trips_by_date dated_env [demo_trip Null] ''next week'') = 400
   \<and> trips_by_date dated_env [demo_trip Null] ''2024-01-05T10:30:00.000Z''
       = \<lparr>status = 200, body = JArr [trip_json (demo_trip Null)]\<rparr>
   \<and> map tripDate
         (snd (create_trip dated_env [] (demo_body (JStr ''2024-01-05T10:30:00.000Z''))))
       = [''2024-01-05'']
   \<and> (\<exists>u \<in> set (snd (update_trip dated_env [demo_trip Null] ''t1''
                         (demo_body (JNum 1704450600000)))).
         tid u = ''t1'' \<and> tripDate u = ''2024-01-05'')"
proof -
  note th = trip_date_normalised [where parse = demo_parse and env = dated_env]
  have env: "connect_fault dated_env = None" "query_fault dated_env = None"
    "date_parse dated_env = demo_parse"
    by (simp_all add: dated_env_def lenient_env_def)
  have shape: "\<not> is_ymd ''2024-01-05T10:30:00.000Z''" "\<not> is_ymd ''next week''"
    "is_ymd ''1999-12-31''"
    by (simp_all add: is_ymd_def is_digit_def)
  have stamp: "formatTripDate demo_parse (Json (JStr ''2024-01-05T10:30:00.000Z''))
      = Inr ''2024-01-05''"
    using th [where s = "''2024-01-05T10:30:00.000Z''" and t = 1704450600000] shape
    by (simp add: demo_parse_def)
  have native: "formatTripDate demo_parse (DateObj (Some 1704450600000)) = Inr ''2024-01-05''"
    using th [where t = 1704450600000] by simp
  have kept: "formatTripDate demo_parse (Json (JStr ''1999-12-31'')) = Inr ''1999-12-31''"
    using th [where s = "''1999-12-31''"] shape by simp
  have bad: "formatTripDate demo_parse (Json (JStr ''next week'')) = Inl invalid_date"
    using th [where v = "Json (JStr ''next week'')"] shape
    by (simp add: new_Date_def demo_parse_def)
  have arg: "js_arg (field_of (demo_body d) ''tripDate'') = Json d" for d
    by (simp add: js_arg_def demo_body_def)
  have refused: "create_trip dated_env [] (demo_body (JStr ''next week'')) = (bad_trip_date, [])
      \<and> update_trip dated_env [demo_trip Null] ''t1'' (demo_body (JStr ''next week''))
          = (bad_trip_date, [demo_trip Null])"
    using th [where b = "demo_body (JStr ''next week'')" and e = invalid_date
        and i = "''t1''" and trips = "[]"]
      th [where b = "demo_body (JStr ''next week'')" and e = invalid_date
        and i = "''t1''" and trips = "[demo_trip Null]"]
      env bad arg demo_body_present [of "JStr ''next week''"]
    by simp
  have q400: "status (trips_by_date dated_env [demo_trip Null] ''next week'') = 400"
    using th [where p = "''next week''" and e = invalid_date and trips = "[demo_trip Null]"]
      env bad by simp
  have q200: "trips_by_date dated_env [demo_trip Null] ''2024-01-05T10:30:00.000Z''
       = \<lparr>status = 200, body = JArr [trip_json (demo_trip Null)]\<rparr>"
    using th [where p = "''2024-01-05T10:30:00.000Z''" and q = "''2024-01-05''"
        and trips = "[demo_trip Null]"] env stamp
    by (simp add: demo_trip_def)
  have env': "cast_oid dated_env ''t1'' = Some ''t1''" "parseInt dated_env = (\<lambda>j. None)"
    "new_oid dated_env = ''t9''"
    by (simp_all add: dated_env_def lenient_env_def)
  have made: "status (fst (create_trip dated_env []
      (demo_body (JStr ''2024-01-05T10:30:00.000Z'')))) = 201"
    using env stamp arg demo_body_present [of "JStr ''2024-01-05T10:30:00.000Z''"]
    by (simp add: create_trip_def save_trip_def build_trip_data_def count_of_def
        stored_count_def demo_body_def Let_def)
  have created: "map tripDate
         (snd (create_trip dated_env [] (demo_body (JStr ''2024-01-05T10:30:00.000Z''))))
       = [''2024-01-05'']"
    using th [where b = "demo_body (JStr ''2024-01-05T10:30:00.000Z'')" and trips = "[]"
        and i = "''t1''" and s = "[]" and t = 0 and p = "[]" and q = "[]" and v = Undefined
        and e = invalid_date]
      made env stamp arg
    by auto
  have number: "formatTripDate demo_parse (Json (JNum 1704450600000)) = Inr ''2024-01-05''"
    by (simp add: formatTripDate_def date_via_Date_def new_Date_def time_clip_def
        iso_date_5_jan)
  have replaced: "status (fst (update_trip dated_env [demo_trip Null] ''t1''
      (demo_body (JNum 1704450600000)))) = 200"
    using env env' number arg demo_body_present [of "JNum 1704450600000"]
    by (simp add: update_trip_def findByIdAndUpdate_set_def build_trip_data_def count_of_def
        stored_count_def demo_body_def demo_trip_def)
  have updated: "\<exists>u \<in> set (snd (update_trip dated_env [demo_trip Null] ''t1''
                         (demo_body (JNum 1704450600000)))).
         tid u = ''t1'' \<and> tripDate u = ''2024-01-05''"
    using th [where b = "demo_body (JNum 1704450600000)" and trips = "[demo_trip Null]"
        and i = "''t1''" and s = "[]" and t = 0 and p = "[]" and q = "[]" and v = Undefined
        and e = invalid_date]
      replaced env env' number arg
    by auto
  from stamp native kept bad refused q400 q200 created updated show ?thesis by blast
qed

text \<open>
  The claim as it is written fails for \<^verbatim>\<open>2024-13-45\<close>: no date, and nothing
  \<^verbatim>\<open>new Date\<close> can read, yet creation answers 201 and stores the string.
\<close>

theorem unparsable_date_counterexample:
  "new_Date (date_parse lenient_env) (Json (JStr ''2024-13-45'')) = None
   \<and> status (fst (create_trip lenient_env [] (demo_body (JStr ''2024-13-45'')))) = 201
   \<and> map tripDate (snd (create_trip lenient_env [] (demo_body (JStr ''2024-13-45''))))
       = [''2024-13-45'']"
proof -
  have "is_ymd ''2024-13-45''"
    by (simp add: is_ymd_def is_digit_def)
  then have "formatTripDate (date_parse lenient_env)
      (js_arg (field_of (demo_body (JStr ''2024-13-45'')) ''tripDate'')) = Inr ''2024-13-45''"
    by (simp add: formatTripDate_def js_arg_def demo_body_def)
  moreover have "trip_fields_missing (demo_body (JStr ''2024-13-45'')) = Inr False"
    by (simp add: demo_body_present)
  moreover have "new_Date (date_parse lenient_env) (Json (JStr ''2024-13-45'')) = None"
    by (simp add: new_Date_def lenient_env_def)
  ultimately show ?thesis
    by (simp add: create_trip_def save_trip_def build_trip_data_def count_of_def
        stored_count_def demo_body_def lenient_env_def Let_def)
qed











text \<open>
  C3. The increment evaluated on a stored trip, under both kinds of server. A missing
  count becomes 1, not 2, where the update is applied (nothing is inserted, so
  \<^verbatim>\<open>$setOnInsert\<close> assigns nothing); a \<^verbatim>\<open>null\<close> count, which is what
  creation stores for a trip without a count, is refused with 503; and a server that
  refuses the update document answers 503 for every trip, also for a count of 3.
\<close>

theorem increment_never_two:
  "count_at (snd (increment_passengers lenient_env [demo_trip Absent] ''t1'')) ''t1''
       = Some (Val 1)
   \<and> status (fst (increment_passengers lenient_env [demo_trip Absent] ''t1'')) = 200
   \<and> count_at (snd (increment_passengers lenient_env [demo_trip Null] ''t1'')) ''t1''
       = Some Null
   \<and> status (fst (increment_passengers lenient_env [demo_trip Null] ''t1'')) = 503
   \<and> count_at (snd (increment_passengers strict_env [demo_trip Absent] ''t1'')) ''t1''
       = Some Absent
   \<and> status (fst (increment_passengers strict_env [demo_trip Absent] ''t1'')) = 503
   \<and> count_at (snd (increment_passengers strict_env [demo_trip (Val 3)] ''t1'')) ''t1''
       = Some (Val 3)
   \<and> status (fst (increment_passengers strict_env [demo_trip (Val 3)] ''t1'')) = 503"
  by (simp add: increment_passengers_def find_one_and_inc_def mongo_inc_def
      lenient_env_def strict_env_def demo_trip_def inc_type_error_def
      count_at_def trip_handleError_def conflict_error_def json_reply_def startsWith_def)

lemma count_at_replace_first:
  "find (\<lambda>t. tid t = oid) trips = Some t \<Longrightarrow> tid t' = oid \<Longrightarrow>
   count_at (replace_first (\<lambda>t. tid t = oid) t' trips) oid = Some (numberOfPassengers t')"
  by (induction trips) (auto simp: count_at_def)

text \<open>
  C10. A full update (\<^verbatim>\<open>PUT /api/trips/:id\<close>) of an existing trip whose body
  passes the checks of the handler and has no \<^verbatim>\<open>numberOfPassengers\<close>, or a
  \<^verbatim>\<open>null\<close> one, answers 200 and leaves the stored count \<^verbatim>\<open>null\<close>,
  whatever the count was before: the handler always puts the count into
  \<^verbatim>\<open>$set\<close>.
\<close>

theorem full_update_erases_count:
  assumes "connect_fault env = None" and "query_fault env = None"
    and "cast_oid env i = Some oid"
    and "find (\<lambda>t. tid t = oid) trips = Some t"
    and "trip_fields_missing b = Inr False"
    and "formatTripDate (date_parse env) (js_arg (field_of b ''tripDate'')) = Inr d"
    and "field_of b ''numberOfPassengers'' = None \<or> field_of b ''numberOfPassengers'' = Some JNull"
  shows "status (fst (update_trip env trips i b)) = 200
       \<and> count_at (snd (update_trip env trips i b)) oid = Some Null"
proof -
  have c: "count_of (parseInt env) (field_of b ''numberOfPassengers'') = CountNull"
    using assms(7) by (auto simp: count_of_def)
  have tid: "tid (set_trip dd Null t) = oid" for dd
    using assms(4) by (auto simp: set_trip_def dest: find_Some_iff [THEN iffD1])
  have cnt: "count_at (replace_first (\<lambda>t. tid t = oid) (set_trip dd Null t) trips) oid
      = Some Null" for dd
    using count_at_replace_first [OF assms(4) tid, of dd] by (simp add: set_trip_def)
  show ?thesis
    using assms(1-6) c cnt
    by (simp add: update_trip_def findByIdAndUpdate_set_def build_trip_data_def
        stored_count_def)
qed


theorem full_update_erases_count_witness:
  "count_at [demo_trip (Val 4)] ''t1'' = Some (Val 4)
   \<and> status (fst (update_trip lenient_env [demo_trip (Val 4)] ''t1''
         (demo_body (JStr ''2024-02-29'')))) = 200
   \<and> count_at (snd (update_trip lenient_env [demo_trip (Val 4)] ''t1''
         (demo_body (JStr ''2024-02-29'')))) ''t1'' = Some Null"
proof -
  have "trip_fields_missing (demo_body (JStr ''2024-02-29'')) = Inr False"
    by (simp add: trip_fields_missing_def demo_body_def blank_def opt_trim_def trim_def
        is_space_def)
  moreover have "formatTripDate (date_parse lenient_env)
      (js_arg (field_of (demo_body (JStr ''2024-02-29'')) ''tripDate'')) = Inr ''2024-02-29''"
    by (simp add: formatTripDate_def js_arg_def demo_body_def is_ymd_def is_digit_def)
  moreover have "find (\<lambda>t. tid t = ''t1'') [demo_trip (Val 4)] = Some (demo_trip (Val 4))"
    by (simp add: demo_trip_def)
  moreover have "field_of (demo_body (JStr ''2024-02-29'')) ''numberOfPassengers'' = None"
    by (simp add: demo_body_def)
  ultimately show ?thesis
    using full_update_erases_count [of lenient_env "''t1''" "''t1''" "[demo_trip (Val 4)]"
        "demo_trip (Val 4)" "demo_body (JStr ''2024-02-29'')" "''2024-02-29''"]
    by (simp add: lenient_env_def count_at_def demo_trip_def)
qed

subsection \<open>Cascading deletion of a passenger\<close>

lemma delete_passenger_calm:
  assumes "no_fault env" and "cast_oid env i = Some oid"
  shows "delete_passenger env s i =
     (case find (\<lambda>p. pid p = oid) (passenger_docs s) of
        None \<Rightarrow> (not_found ''Passenger not found'', s)
      | Some p \<Rightarrow> (passenger_deleted i, cascade oid i s))"
  using assms
  by (simp add: no_fault_def delete_passenger_def withTransaction_def
      delete_in_transaction_def startSession_def endSession_def cascade_def
      delete_catch_def passenger_not_found_def split: option.splits)

lemma find_remove_first:
  "distinct (map pid ps) \<Longrightarrow>
   find (\<lambda>p. pid p = oid) (remove_first (\<lambda>p. pid p = oid) ps) = None"
proof (induction ps)
  case Nil
  then show ?case by simp
next
  case (Cons a ps)
  show ?case
  proof (cases "pid a = oid")
    case True
    with Cons.prems have "oid \<notin> pid ` set ps" by auto
    then have "find (\<lambda>p. pid p = oid) ps = None"
      by (auto simp: find_None_iff)
    with True show ?thesis by simp
  next
    case False
    with Cons show ?thesis by simp
  qed
qed

lemma hex_cast_capitals:
  "hex_cast ''507F1F77BCF86CD799439011'' = Some ''507f1f77bcf86cd799439011''"
  by code_simp

text \<open>
  C1. The cascade misses the trips whenever the id of the request is not written the way
  the trips store it. The passenger is looked up and removed by the ObjectId that the
  parameter casts to, the trips by the parameter as a string. So, without faults and for
  every store with unique passenger ids: if the parameter casts to the id of an existing
  passenger and differs from that id as a string, the reply is 200 ``Passenger and
  associated trips deleted successfully'', the passenger is gone, and every trip that
  refers to the passenger is still in the collection.
\<close>

theorem cascade_misses_trips:
  assumes calm: "no_fault env" and cast: "cast_oid env i = Some oid" and other: "oid \<noteq> i"
    and found: "find (\<lambda>p. pid p = oid) (passenger_docs s) = Some p"
    and ids: "distinct (map pid (passenger_docs s))"
  shows "fst (delete_passenger env s i) = passenger_deleted i
       \<and> find (\<lambda>p. pid p = oid) (passenger_docs (snd (delete_passenger env s i))) = None
       \<and> trips_of oid (snd (delete_passenger env s i)) = trips_of oid s"
proof -
  have run: "delete_passenger env s i = (passenger_deleted i, cascade oid i s)"
    using delete_passenger_calm [OF calm cast, of s] found by simp
  have gone: "find (\<lambda>p. pid p = oid) (passenger_docs (cascade oid i s)) = None"
    using find_remove_first [OF ids, of oid] by (simp add: cascade_def)
  have kept: "trips_of oid (cascade oid i s) = trips_of oid s"
    using other by (auto simp: trips_of_def cascade_def intro: filter_cong)
  from run gone kept show ?thesis by simp
qed

theorem cascade_misses_trips_witness:
  "map tid (trips_of ''507f1f77bcf86cd799439011'' demo_store) = [''t1'', ''t3'']
   \<and> fst (delete_passenger calm_env demo_store ''507F1F77BCF86CD799439011'')
       = passenger_deleted ''507F1F77BCF86CD799439011''
   \<and> find (\<lambda>p. pid p = ''507f1f77bcf86cd799439011'')
         (passenger_docs (snd (delete_passenger calm_env demo_store
            ''507F1F77BCF86CD799439011''))) = None
   \<and> map tid (trips_of ''507f1f77bcf86cd799439011''
         (snd (delete_passenger calm_env demo_store ''507F1F77BCF86CD799439011'')))
       = [''t1'', ''t3'']"
proof -
  have calm: "no_fault calm_env"
    by (simp add: no_fault_def calm_env_def)
  have cast: "cast_oid calm_env ''507F1F77BCF86CD799439011'' = Some ''507f1f77bcf86cd799439011''"
    using hex_cast_capitals by (simp add: calm_env_def)
  have other: "''507f1f77bcf86cd799439011'' \<noteq> ''507F1F77BCF86CD799439011''"
    by simp
  have found: "find (\<lambda>p. pid p = ''507f1f77bcf86cd799439011'') (passenger_docs demo_store)
      = Some \<lparr>pid = ''507f1f77bcf86cd799439011'', p_firstName = ''Ann'', p_lastName = ''Lee'',
               jobRole = None\<rparr>"
    by (simp add: demo_store_def)
  have ids: "distinct (map pid (passenger_docs demo_store))"
    by (simp add: demo_store_def)
  have before: "map tid (trips_of ''507f1f77bcf86cd799439011'' demo_store) = [''t1'', ''t3'']"
    by (simp add: trips_of_def demo_store_def demo_trip_of_def)
  from cascade_misses_trips [OF calm cast other found ids] before
  show ?thesis by simp
qed

subsection \<open>Site initialization\<close>

lemma upsert_site_cases:
  "upsert_site env sites n = sites \<and> n \<in> siteName ` set sites
   \<or> n \<notin> siteName ` set sites \<and> upsert_site env sites n =
       sites @ [\<lparr>site_id = site_oid env n, siteName = n, currentPOB = 0,
                 maximumPOB = defaultMaximumPOB, pobUpdatedDate = now env\<rparr>]"
  by (auto simp: upsert_site_def find_None_iff find_Some_iff split: option.splits)

lemma bulkWrite_extends:
  "\<exists>new. foldl (upsert_site env) sites ns = sites @ new
     \<and> (\<forall>x \<in> set new. siteName x \<in> set ns \<and> siteName x \<notin> siteName ` set sites
           \<and> currentPOB x = 0 \<and> maximumPOB x = defaultMaximumPOB)
     \<and> set ns \<subseteq> siteName ` set (sites @ new)"
proof (induction ns arbitrary: sites)
  case Nil
  then show ?case by simp
next
  case (Cons n ns)
  from Cons.IH [of "upsert_site env sites n"] obtain new where
    new: "foldl (upsert_site env) (upsert_site env sites n) ns = upsert_site env sites n @ new"
    and fresh: "\<forall>x \<in> set new. siteName x \<in> set ns
        \<and> siteName x \<notin> siteName ` set (upsert_site env sites n)
        \<and> currentPOB x = 0 \<and> maximumPOB x = defaultMaximumPOB"
    and all: "set ns \<subseteq> siteName ` set (upsert_site env sites n @ new)"
    by blast
  from upsert_site_cases [of env sites n] show ?case
  proof
    assume "upsert_site env sites n = sites \<and> n \<in> siteName ` set sites"
    with new fresh all show ?thesis
      by (intro exI [of _ new]) auto
  next
    assume a: "n \<notin> siteName ` set sites \<and> upsert_site env sites n =
       sites @ [\<lparr>site_id = site_oid env n, siteName = n, currentPOB = 0,
                 maximumPOB = defaultMaximumPOB, pobUpdatedDate = now env\<rparr>]"
    with new fresh all show ?thesis
      by (intro exI [of _ "\<lparr>site_id = site_oid env n, siteName = n, currentPOB = 0,
                 maximumPOB = defaultMaximumPOB, pobUpdatedDate = now env\<rparr> # new"]) auto
  qed
qed

lemma upsert_site_present:
  "n \<in> siteName ` set sites \<Longrightarrow> upsert_site env sites n = sites"
  using upsert_site_cases [of env sites n] by blast

lemma bulkWrite_present:
  "set ns \<subseteq> siteName ` set sites \<Longrightarrow> foldl (upsert_site env) sites ns = sites"
  by (induction ns arbitrary: sites) (simp_all add: upsert_site_present)

lemma initialize_run:
  "connect_fault e = None \<Longrightarrow> query_fault e = None \<Longrightarrow>
   snd (initialize_sites e xs) = foldl (upsert_site e) xs locations"
  by (simp add: initialize_sites_def bulkWrite_def Let_def)

text \<open>
  C8. With the database reachable, site initialization answers 201 and leaves the site
  collection as it was, followed by new sites: each new site has one of the known names,
  a name that no site had before, \<open>currentPOB\<close> 0 and \<open>maximumPOB\<close> 200. So every site
  that existed keeps its occupancy values and its timestamp, and afterwards every known
  name has a site. Running the initialization again, at any later time and any number of
  times, changes nothing.
\<close>

theorem initialize_idempotent:
  assumes up: "connect_fault env = None" and ok: "query_fault env = None"
    and up': "connect_fault env' = None" and ok': "query_fault env' = None"
  shows
    "(\<exists>new. snd (initialize_sites env sites) = sites @ new
        \<and> (\<forall>x \<in> set new. siteName x \<in> set locations
              \<and> siteName x \<notin> siteName ` set sites
              \<and> currentPOB x = 0 \<and> maximumPOB x = defaultMaximumPOB))
     \<and> set locations \<subseteq> siteName ` set (snd (initialize_sites env sites))
     \<and> status (fst (initialize_sites env sites)) = 201
     \<and> snd (initialize_sites env' (snd (initialize_sites env sites)))
         = snd (initialize_sites env sites)
     \<and> ((\<lambda>xs. snd (initialize_sites env' xs)) ^^ k) (snd (initialize_sites env sites))
         = snd (initialize_sites env sites)"
proof -
  from bulkWrite_extends [of env sites locations] obtain new where
    new: "foldl (upsert_site env) sites locations = sites @ new"
    and fresh: "\<forall>x \<in> set new. siteName x \<in> set locations
        \<and> siteName x \<notin> siteName ` set sites
        \<and> currentPOB x = 0 \<and> maximumPOB x = defaultMaximumPOB"
    and all: "set locations \<subseteq> siteName ` set (sites @ new)"
    by blast
  have first: "snd (initialize_sites env sites) = sites @ new"
    using initialize_run [OF up ok] new by simp
  have again: "snd (initialize_sites env' (sites @ new)) = sites @ new"
    using initialize_run [OF up' ok', of "sites @ new"] bulkWrite_present [OF all, of env']
    by simp
  have created: "status (fst (initialize_sites env sites)) = 201"
    using up ok by (simp add: initialize_sites_def Let_def json_reply_def)
  have many: "((\<lambda>xs. snd (initialize_sites env' xs)) ^^ k) (sites @ new) = sites @ new"
    using again by (induction k) simp_all
  from first fresh all again created many show ?thesis by auto
qed

theorem initialize_idempotent_witness:
  "map siteName (snd (initialize_sites (demo_site_env 5) demo_sites))
       = [''NSC'', ''Ogle'', ''NTM'', ''NDT'', ''NBD'', ''STC'']
   \<and> take 1 (snd (initialize_sites (demo_site_env 5) demo_sites)) = demo_sites
   \<and> snd (initialize_sites (demo_site_env 9) (snd (initialize_sites (demo_site_env 5) demo_sites)))
       = snd (initialize_sites (demo_site_env 5) demo_sites)"
proof -
  have env: "connect_fault (demo_site_env t) = None" "query_fault (demo_site_env t) = None" for t
    by (simp_all add: demo_site_env_def)
  have names: "map siteName (snd (initialize_sites (demo_site_env 5) demo_sites))
       = [''NSC'', ''Ogle'', ''NTM'', ''NDT'', ''NBD'', ''STC'']"
    and kept: "take 1 (snd (initialize_sites (demo_site_env 5) demo_sites)) = demo_sites"
    by (simp_all add: initialize_sites_def bulkWrite_def upsert_site_def locations_def
        demo_site_env_def demo_sites_def Let_def)
  from initialize_idempotent [OF env env, of 5 demo_sites 9] names kept
  show ?thesis by simp
qed

end
